theory Spec2Isabelle
  imports Complex_Main
begin

section \<open>Test-case generator of the performance tests (sdc/tests/tests_perf/generator.py)\<close>

text \<open>
  The module turns a table of \<open>TestCase\<close> tuples into test methods of a class. Strings are
  Python \<open>str\<close>, modelled as \<open>string\<close>; Python's unbounded \<open>int\<close> is \<open>int\<close>; \<open>None\<close>
  defaults are \<open>option\<close>s; a raised exception is the \<open>Inl\<close> of a sum.
\<close>

subsection \<open>The string methods the module uses\<close>

text \<open>
  \<open>sep.join(parts)\<close> and \<open>s.split(sep)\<close> of Python's \<open>str\<close>. \<open>split\<close> cuts at the
  leftmost occurrences of the separator, which do not overlap, and always returns at least
  one token: \<open>''.split(', ')\<close> is \<open>['']\<close>. The module only ever passes the literal
  separators \<open>', '\<close> and \<open>'_'\<close>; Python raises \<open>ValueError\<close> on an empty separator, a
  case the equations below never reach from the module (they return the text whole).
\<close>

fun join_py :: "string \<Rightarrow> string list \<Rightarrow> string" where
  "join_py sep [] = []"
| "join_py sep [x] = x"
| "join_py sep (x # y # ys) = x @ sep @ join_py sep (y # ys)"

fun split_py :: "string \<Rightarrow> string \<Rightarrow> string list" where
  "split_py sep [] = [[]]"
| "split_py sep (c # cs) =
     (if sep \<noteq> [] \<and> take (length sep) (c # cs) = sep
      then [] # split_py sep (drop (length sep - 1) cs)
      else (case split_py sep cs of
              [] \<Rightarrow> [[c]]
            | w # ws \<Rightarrow> (c # w) # ws))"

text \<open>
  Python's slices \<open>xs[n:]\<close> and \<open>xs[:n]\<close> for an \<open>int\<close> \<open>n\<close>: a negative bound counts from
  the end of the list, and a bound outside the list is clamped to it.
\<close>

definition slice_from :: "int \<Rightarrow> 'a list \<Rightarrow> 'a list" where
  "slice_from n xs = (if 0 \<le> n then drop (nat n) xs else drop (length xs - nat (- n)) xs)"

definition slice_to :: "int \<Rightarrow> 'a list \<Rightarrow> 'a list" where
  "slice_to n xs = (if 0 \<le> n then take (nat n) xs else take (length xs - nat (- n)) xs)"

subsection \<open>The data model\<close>

text \<open>
  \<open>CallExpression\<close> and \<open>TestCase\<close> are the module's two \<open>NamedTuple\<close>s, with the fields and
  defaults of the source. The field \<open>size\<close> is written \<open>tc_size\<close> (HOL has a constant
  \<open>size\<close>) and the field \<open>type_\<close> is written \<open>ce_type\<close> (a name cannot end with an
  underscore). \<open>call_expr\<close> is \<open>None\<close>, a string, or a list of \<open>CallExpression\<close>s
  (\<open>gen_usecase\<close> tests \<open>isinstance(call_expr, list)\<close>). The elements of \<open>data_gens\<close>
  (generator callables) and of \<open>input_data\<close> are passed through untouched, so their types
  are parameters.
\<close>

record CallExpression =
  code :: string
  ce_type :: string
  jitted :: bool

datatype call_expr_t = CEStr string | CEList "CallExpression list"

record ('g, 'i) TestCase =
  name :: string
  tc_size :: "nat list"
  params :: string
  call_expr :: "call_expr_t option"
  usecase_params :: "string option"
  input_data :: "'i list option"
  data_num :: int
  data_gens :: "'g list option"
  skip :: bool
  check_skipna :: bool

text \<open>\<open>TestCase(name, size)\<close> with every other field at its default.\<close>

definition mk_case :: "string \<Rightarrow> nat list \<Rightarrow> ('g, 'i) TestCase" where
  "mk_case n sz = \<lparr> name = n, tc_size = sz, params = [], call_expr = None,
     usecase_params = None, input_data = None, data_num = 1, data_gens = None,
     skip = False, check_skipna = False \<rparr>"

subsection \<open>skipna_cases\<close>

text \<open>
  The generator \<open>skipna_cases\<close>, as the list of what it yields, in order. \<open>f'skipna={skipna}'\<close>
  renders the booleans as \<open>True\<close> and \<open>False\<close>; \<open>case._replace(params=params)\<close> is a new
  tuple with one field changed.
\<close>

definition str_bool :: "bool \<Rightarrow> string" where
  "str_bool b = (if b then ''True'' else ''False'')"

definition skipna_params :: "string \<Rightarrow> bool \<Rightarrow> string" where
  "skipna_params ps skipna =
     (let ps1 = (if ps \<noteq> [] then ps @ '', '' else ps)
      in ps1 @ ''skipna='' @ str_bool skipna)"

fun skipna_cases :: "('g, 'i) TestCase list \<Rightarrow> ('g, 'i) TestCase list" where
  "skipna_cases [] = []"
| "skipna_cases (c # cases) =
     (if check_skipna c
      then map (\<lambda>skipna. c\<lparr>params := skipna_params (params c) skipna\<rparr>) [True, False]
      else [c]) @ skipna_cases cases"

subsection \<open>Parameter partition and the default call expression\<close>

definition gen_params_wo_data :: "('g, 'i) TestCase \<Rightarrow> string" where
  "gen_params_wo_data test_case =
     (let extra_data_num =
            (case data_gens test_case of
               None \<Rightarrow> data_num test_case - 1
             | Some gens \<Rightarrow> int (length gens));
          method_params = slice_from extra_data_num (split_py '', '' (params test_case))
      in join_py '', '' method_params)"

definition gen_usecase_params :: "('g, 'i) TestCase \<Rightarrow> string" where
  "gen_usecase_params test_case =
     (let extra_data_num =
            (case data_gens test_case of
               None \<Rightarrow> data_num test_case - 1
             | Some gens \<Rightarrow> int (length gens));
          extra_usecase_params = slice_to extra_data_num (split_py '', '' (params test_case));
          usecase_params_parts = [''data''] @ extra_usecase_params
      in join_py '', '' usecase_params_parts)"

definition gen_call_expr :: "('g, 'i) TestCase \<Rightarrow> string \<Rightarrow> string" where
  "gen_call_expr test_case prefix =
     (let prefix_as_list = (if prefix \<noteq> [] then [prefix] else []);
          call_expr_parts = [''data''] @ prefix_as_list
             @ [name test_case @ ''('' @ params test_case @ '')'']
      in join_py ''.'' call_expr_parts)"

text \<open>
  The partition in the spec's words: the width is the number of data generators when
  they are given, else \<open>max(data_num - 1, 0)\<close>; the tokens are the pieces of \<open>params\<close>
  between the separators \<open>', '\<close>.
\<close>

definition partition_width :: "('g, 'i) TestCase \<Rightarrow> nat" where
  "partition_width d =
     (case data_gens d of
        Some gens \<Rightarrow> length gens
      | None \<Rightarrow> nat (max (data_num d - 1) 0))"

definition param_tokens :: "('g, 'i) TestCase \<Rightarrow> string list" where
  "param_tokens d = split_py '', '' (params d)"

definition extra_tokens :: "('g, 'i) TestCase \<Rightarrow> string list" where
  "extra_tokens d = take (partition_width d) (param_tokens d)"

definition literal_tokens :: "('g, 'i) TestCase \<Rightarrow> string list" where
  "literal_tokens d = drop (partition_width d) (param_tokens d)"

subsection \<open>The Python that create\_func executes\<close>

text \<open>
  \<open>create_func\<close> formats the text
  \<^verbatim>\<open>
  def func({usecase_params}):
    start_time = time.time()
    res = {call_expr}
    finish_time = time.time()
    return finish_time - start_time, res
  \<close>
  and runs \<open>exec\<close> on it. \<open>exec\<close> first compiles the text (a \<open>SyntaxError\<close> is raised
  here and nothing is defined) and then runs the \<open>def\<close> statement, which only binds the
  function object: the body is not run, and no name in it is looked up, before the function
  is called.

  The model covers the fragment of Python 3 whose tokens are names, decimal integers,
  \<open>+\<close>, \<open>.\<close>, \<open>,\<close> and parentheses, separated by spaces: sums, unary plus, attribute
  access, calls with positional arguments, parenthesised expressions and tuples. Within
  these tokens the grammar below is Python's: a text that the parser rejects is a
  \<open>SyntaxError\<close> of Python. A text with any other character (an operator, a quote, a
  newline), a float or prefixed number, a keyword in the expression, or one of the names
  the body of \<open>func\<close> uses itself (\<open>time\<close>, \<open>start_time\<close>, \<open>finish_time\<close>, \<open>res\<close>) is
  outside the fragment; the model answers \<open>Unmodelled\<close> for it and nothing is claimed.
  The two spliced texts cannot leave their places in the template, since that takes a
  colon or a newline. The limits of one interpreter (nesting depth, number of arguments)
  are not modelled.
\<close>

datatype error = SyntaxError | NameError string | TypeError | Unmodelled

datatype token = TName string | TInt nat | TPlus | TDot | TComma | TLPar | TRPar

definition is_name_start :: "char \<Rightarrow> bool" where
  "is_name_start c =
     (let n = (of_char c :: nat)
      in (97 \<le> n \<and> n \<le> 122) \<or> (65 \<le> n \<and> n \<le> 90) \<or> n = 95)"

definition is_digit :: "char \<Rightarrow> bool" where
  "is_digit c = (let n = (of_char c :: nat) in 48 \<le> n \<and> n \<le> 57)"

definition is_name_char :: "char \<Rightarrow> bool" where
  "is_name_char c = (is_name_start c \<or> is_digit c)"

fun digits_value :: "nat \<Rightarrow> string \<Rightarrow> nat" where
  "digits_value acc [] = acc"
| "digits_value acc (c # cs) = digits_value (10 * acc + (of_char c - 48)) cs"

text \<open>
  The tokenizer; \<open>None\<close> when the text leaves the fragment. A digit run followed by a
  letter or a dot (\<open>1e5\<close>, \<open>0x1f\<close>, \<open>1.5\<close>), a dot followed by a dot or a digit (\<open>...\<close>,
  \<open>.5\<close>) and a number with a leading zero are left to Python's own tokenizer.
\<close>

function tokenize :: "string \<Rightarrow> token list option" where
  "tokenize [] = Some []"
| "tokenize (c # cs) =
     (if c = CHR '' '' then tokenize cs
      else if is_name_start c then
        map_option (Cons (TName (c # takeWhile is_name_char cs)))
          (tokenize (dropWhile is_name_char cs))
      else if is_digit c then
        (let ds = c # takeWhile is_digit cs;
             r = dropWhile is_digit cs
         in if c = CHR ''0'' \<and> 1 < length ds then None
            else (case r of
                    [] \<Rightarrow> Some [TInt (digits_value 0 ds)]
                  | x # _ \<Rightarrow>
                      if is_name_start x \<or> x = CHR ''.'' then None
                      else map_option (Cons (TInt (digits_value 0 ds))) (tokenize r)))
      else if c = CHR ''.'' then
        (case cs of
           [] \<Rightarrow> Some [TDot]
         | x # _ \<Rightarrow>
             if x = CHR ''.'' \<or> is_digit x then None
             else map_option (Cons TDot) (tokenize cs))
      else if c = CHR ''+'' then map_option (Cons TPlus) (tokenize cs)
      else if c = CHR '','' then map_option (Cons TComma) (tokenize cs)
      else if c = CHR ''('' then map_option (Cons TLPar) (tokenize cs)
      else if c = CHR '')'' then map_option (Cons TRPar) (tokenize cs)
      else None)"
  by pat_completeness auto
termination
  by (relation "measure length") (auto simp: less_Suc_eq_le length_dropWhile_le)

text \<open>
  Python's keywords. \<open>async\<close>, \<open>await\<close> and \<open>__debug__\<close> are reserved in some
  versions or positions only, so a text that uses them is outside the fragment, with the
  names of the body of \<open>func\<close>.
\<close>

definition py_keywords :: "string list" where
  "py_keywords = [''False'', ''None'', ''True'', ''and'', ''as'', ''assert'', ''break'',
     ''class'', ''continue'', ''def'', ''del'', ''elif'', ''else'', ''except'', ''finally'',
     ''for'', ''from'', ''global'', ''if'', ''import'', ''in'', ''is'', ''lambda'',
     ''nonlocal'', ''not'', ''or'', ''pass'', ''raise'', ''return'', ''try'', ''while'',
     ''with'', ''yield'']"

definition unmodelled_names :: "string list" where
  "unmodelled_names = [''async'', ''await'', ''__debug__'',
     ''time'', ''start_time'', ''finish_time'', ''res'']"

fun token_names :: "token list \<Rightarrow> string list" where
  "token_names [] = []"
| "token_names (TName n # ts) = n # token_names ts"
| "token_names (t # ts) = token_names ts"

subsubsection \<open>Expressions\<close>

datatype expr =
    Name string
  | Num nat
  | Pos expr
  | Add expr expr
  | Attr expr string
  | Call expr "expr list"
  | Tuple "expr list"

text \<open>
  The parser reads the tokens once, left to right, with a stack of frames: one frame for
  the right-hand side of \<open>res = ...\<close> and one for every open parenthesis (a group or
  tuple, or the arguments of a call whose callee is the current operand of the frame
  below). A frame holds the comma-separated items finished so far (last first), the sum
  to the left of the last binary \<open>+\<close>, the number of unary \<open>+\<close> read since, and the
  current operand with its trailers. The flag of the state says that a \<open>.\<close> was just
  read and an attribute name must follow.
\<close>

datatype fkind = Top | Group | Args

datatype frame = Frame (f_kind: fkind) (f_items: "expr list") (f_acc: "expr option")
  (f_upl: nat) (f_cur: "expr option")

definition new_frame :: "fkind \<Rightarrow> frame" where
  "new_frame k = Frame k [] None 0 None"

fun pos_n :: "nat \<Rightarrow> expr \<Rightarrow> expr" where
  "pos_n 0 e = e"
| "pos_n (Suc n) e = Pos (pos_n n e)"

definition finish :: "frame \<Rightarrow> expr option" where
  "finish f =
     (case f_cur f of
        None \<Rightarrow> None
      | Some c \<Rightarrow>
          Some (case f_acc f of
                  None \<Rightarrow> pos_n (f_upl f) c
                | Some a \<Rightarrow> Add a (pos_n (f_upl f) c)))"

definition idle :: "frame \<Rightarrow> bool" where
  "idle f = (f_cur f = None \<and> f_acc f = None \<and> f_upl f = 0)"

definition set_cur :: "expr \<Rightarrow> frame \<Rightarrow> frame" where
  "set_cur e f = Frame (f_kind f) (f_items f) (f_acc f) (f_upl f) (Some e)"

definition close_items :: "frame \<Rightarrow> expr list option" where
  "close_items f =
     (case finish f of
        Some e \<Rightarrow> Some (rev (e # f_items f))
      | None \<Rightarrow> if idle f then Some (rev (f_items f)) else None)"

definition close_group :: "frame \<Rightarrow> expr option" where
  "close_group f =
     (case finish f of
        Some e \<Rightarrow> Some (if f_items f = [] then e else Tuple (rev (e # f_items f)))
      | None \<Rightarrow> if idle f then Some (Tuple (rev (f_items f))) else None)"

type_synonym pstate = "frame list \<times> bool"

fun step :: "token \<Rightarrow> pstate \<Rightarrow> pstate option" where
  "step t ([], dot) = None"
| "step (TName n) (f # fs, True) =
     (case f_cur f of
        None \<Rightarrow> None
      | Some c \<Rightarrow> Some (set_cur (Attr c n) f # fs, False))"
| "step t (f # fs, True) = None"
| "step (TName n) (f # fs, False) =
     (case f_cur f of
        None \<Rightarrow> Some (set_cur (Name n) f # fs, False)
      | Some c \<Rightarrow> None)"
| "step (TInt k) (f # fs, False) =
     (case f_cur f of
        None \<Rightarrow> Some (set_cur (Num k) f # fs, False)
      | Some c \<Rightarrow> None)"
| "step TDot (f # fs, False) =
     (case f_cur f of
        None \<Rightarrow> None
      | Some c \<Rightarrow> Some (f # fs, True))"
| "step TPlus (f # fs, False) =
     (case finish f of
        None \<Rightarrow> Some (Frame (f_kind f) (f_items f) (f_acc f) (Suc (f_upl f)) None # fs, False)
      | Some e \<Rightarrow> Some (Frame (f_kind f) (f_items f) (Some e) 0 None # fs, False))"
| "step TComma (f # fs, False) =
     (case finish f of
        None \<Rightarrow> None
      | Some e \<Rightarrow> Some (Frame (f_kind f) (e # f_items f) None 0 None # fs, False))"
| "step TLPar (f # fs, False) =
     (case f_cur f of
        None \<Rightarrow> Some (new_frame Group # f # fs, False)
      | Some c \<Rightarrow> Some (new_frame Args # f # fs, False))"
| "step TRPar (f # fs, False) =
     (case fs of
        [] \<Rightarrow> None
      | g # gs \<Rightarrow>
          (case f_kind f of
             Top \<Rightarrow> None
           | Group \<Rightarrow>
               (case close_group f of
                  None \<Rightarrow> None
                | Some e \<Rightarrow> Some (set_cur e g # gs, False))
           | Args \<Rightarrow>
               (case (close_items f, f_cur g) of
                  (Some es, Some c) \<Rightarrow> Some (set_cur (Call c es) g # gs, False)
                | _ \<Rightarrow> None)))"

fun parse_tokens :: "token list \<Rightarrow> pstate \<Rightarrow> expr option" where
  "parse_tokens [] st =
     (case st of
        ([f], False) \<Rightarrow> (if idle f \<and> f_items f = [] then None else close_group f)
      | _ \<Rightarrow> None)"
| "parse_tokens (t # ts) st =
     (case step t st of
        None \<Rightarrow> None
      | Some st' \<Rightarrow> parse_tokens ts st')"

definition parse_expr :: "token list \<Rightarrow> expr option" where
  "parse_expr ts = parse_tokens ts ([new_frame Top], False)"

definition compile_expr :: "string \<Rightarrow> error + expr" where
  "compile_expr s =
     (case tokenize s of
        None \<Rightarrow> Inl Unmodelled
      | Some ts \<Rightarrow>
          if list_ex (\<lambda>n. n \<in> set py_keywords \<or> n \<in> set unmodelled_names) (token_names ts)
          then Inl Unmodelled
          else (case parse_expr ts of
                  None \<Rightarrow> Inl SyntaxError
                | Some e \<Rightarrow> Inr e))"

subsubsection \<open>Parameter lists\<close>

text \<open>
  Names separated by commas, with an optional comma after the last one (Python's grammar
  allows it: \<open>def f(a, ):\<close> is \<open>def f(a):\<close>). A keyword as a parameter and a name
  repeated are \<open>SyntaxError\<close>s of the compiler. Defaults, annotations and starred
  parameters are outside the fragment.
\<close>

fun parse_params :: "token list \<Rightarrow> string list option" where
  "parse_params [] = Some []"
| "parse_params [TName n] = Some [n]"
| "parse_params (TName n # TComma # ts) = map_option (Cons n) (parse_params ts)"
| "parse_params ts = None"

fun is_param_token :: "token \<Rightarrow> bool" where
  "is_param_token (TName n) = True"
| "is_param_token TComma = True"
| "is_param_token t = False"

definition compile_params :: "string \<Rightarrow> error + string list" where
  "compile_params s =
     (case tokenize s of
        None \<Rightarrow> Inl Unmodelled
      | Some ts \<Rightarrow>
          if \<not> list_all is_param_token ts
             \<or> list_ex (\<lambda>n. n \<in> set unmodelled_names) (token_names ts)
          then Inl Unmodelled
          else if list_ex (\<lambda>n. n \<in> set py_keywords) (token_names ts) then Inl SyntaxError
          else (case parse_params ts of
                  None \<Rightarrow> Inl SyntaxError
                | Some ns \<Rightarrow> if distinct ns then Inr ns else Inl SyntaxError))"

subsubsection \<open>create\_func\<close>

text \<open>
  The function object that \<open>exec\<close> leaves in \<open>loc_vars\<close>: its parameter names and the
  expression of its body. An f-string renders \<open>None\<close> as the text \<open>None\<close>, which is what
  \<open>create_func\<close> formats into the parameter list when \<open>usecase_params\<close> is \<open>None\<close>.
\<close>

record probe =
  p_params :: "string list"
  p_body :: expr

definition format_str :: "string option \<Rightarrow> string" where
  "format_str v = (case v of None \<Rightarrow> ''None'' | Some s \<Rightarrow> s)"

definition create_func :: "string option \<Rightarrow> string \<Rightarrow> error + probe" where
  "create_func usecase_params' call_expr' =
     (case (compile_params (format_str usecase_params'), compile_expr call_expr') of
        (Inl Unmodelled, _) \<Rightarrow> Inl Unmodelled
      | (_, Inl Unmodelled) \<Rightarrow> Inl Unmodelled
      | (Inl e, _) \<Rightarrow> Inl e
      | (_, Inl e) \<Rightarrow> Inl e
      | (Inr ps, Inr body) \<Rightarrow> Inr \<lparr> p_params = ps, p_body = body \<rparr>)"

subsubsection \<open>Calling the synthesized function\<close>

text \<open>
  Values: integers, tuples, and opaque objects (modules, series, functions), whose
  operations belong to the library under test and answer \<open>Unmodelled\<close>. A name is looked
  up when the expression is evaluated: among the parameters, then in the globals of the
  module (its imports, its own functions and the builtins), and raises \<open>NameError\<close> when
  it is in neither. Operands and arguments are evaluated left to right.
\<close>

datatype pyval = VInt int | VTuple "pyval list" | VObj string

fun py_add :: "pyval \<Rightarrow> pyval \<Rightarrow> error + pyval" where
  "py_add (VInt a) (VInt b) = Inr (VInt (a + b))"
| "py_add (VTuple xs) (VTuple ys) = Inr (VTuple (xs @ ys))"
| "py_add (VInt a) (VTuple ys) = Inl TypeError"
| "py_add (VTuple xs) (VInt b) = Inl TypeError"
| "py_add a b = Inl Unmodelled"

fun py_pos :: "pyval \<Rightarrow> error + pyval" where
  "py_pos (VInt a) = Inr (VInt a)"
| "py_pos (VTuple xs) = Inl TypeError"
| "py_pos (VObj x) = Inl Unmodelled"

fun py_call :: "pyval \<Rightarrow> pyval list \<Rightarrow> error + pyval" where
  "py_call (VObj x) args = Inl Unmodelled"
| "py_call v args = Inl TypeError"

fun eval :: "(string \<rightharpoonup> pyval) \<Rightarrow> (string \<rightharpoonup> pyval) \<Rightarrow> expr \<Rightarrow> error + pyval"
  and eval_list :: "(string \<rightharpoonup> pyval) \<Rightarrow> (string \<rightharpoonup> pyval) \<Rightarrow> expr list \<Rightarrow> error + pyval list"
  where
  "eval loc glob (Name n) =
     (case loc n of
        Some v \<Rightarrow> Inr v
      | None \<Rightarrow> (case glob n of Some v \<Rightarrow> Inr v | None \<Rightarrow> Inl (NameError n)))"
| "eval loc glob (Num k) = Inr (VInt (int k))"
| "eval loc glob (Pos e) =
     (case eval loc glob e of Inl err \<Rightarrow> Inl err | Inr v \<Rightarrow> py_pos v)"
| "eval loc glob (Add a b) =
     (case eval loc glob a of
        Inl err \<Rightarrow> Inl err
      | Inr v \<Rightarrow> (case eval loc glob b of Inl err \<Rightarrow> Inl err | Inr w \<Rightarrow> py_add v w))"
| "eval loc glob (Attr e n) =
     (case eval loc glob e of Inl err \<Rightarrow> Inl err | Inr v \<Rightarrow> Inl Unmodelled)"
| "eval loc glob (Call f es) =
     (case eval loc glob f of
        Inl err \<Rightarrow> Inl err
      | Inr v \<Rightarrow> (case eval_list loc glob es of Inl err \<Rightarrow> Inl err | Inr vs \<Rightarrow> py_call v vs))"
| "eval loc glob (Tuple es) =
     (case eval_list loc glob es of Inl err \<Rightarrow> Inl err | Inr vs \<Rightarrow> Inr (VTuple vs))"
| "eval_list loc glob [] = Inr []"
| "eval_list loc glob (e # es) =
     (case eval loc glob e of
        Inl err \<Rightarrow> Inl err
      | Inr v \<Rightarrow> (case eval_list loc glob es of Inl err \<Rightarrow> Inl err | Inr vs \<Rightarrow> Inr (v # vs)))"


text \<open>
  A call \<open>func(*args)\<close>. A wrong number of arguments raises \<open>TypeError\<close> before the body
  runs. \<open>time.time()\<close> reads the system's wall clock; its two readings are inputs of the
  call (as reals: the sign of a difference of two floats is the sign of the exact
  difference). The function returns the pair \<open>(finish_time - start_time, res)\<close>.
\<close>

definition call_func ::
  "(string \<rightharpoonup> pyval) \<Rightarrow> real \<Rightarrow> real \<Rightarrow> probe \<Rightarrow> pyval list \<Rightarrow> error + (real \<times> pyval)" where
  "call_func glob start_time finish_time f args =
     (if length args \<noteq> length (p_params f) then Inl TypeError
      else (case eval (map_of (zip (p_params f) args)) glob (p_body f) of
              Inl err \<Rightarrow> Inl err
            | Inr res \<Rightarrow> Inr (finish_time - start_time, res)))"

text \<open>
  The global names that evaluation reads: those that the module's own text binds (its
  imports and definitions) and the builtins of Python 3 (the names that
  \<open>dir(builtins)\<close> lists, keywords left out), all as opaque objects. A name is looked up
  in the module's globals and then in the builtins, so one map stands for both. The names
  that \<open>from sdc.tests.test_utils import *\<close> binds are not among the sources; every
  general statement below is about an arbitrary global environment, and
  \<open>module_globals\<close> serves closed examples.
\<close>

definition module_names :: "string list" where
  "module_names =
     [''time'', ''np'', ''NamedTuple'', ''to_varname'', ''CallExpression'', ''TestCase'',
      ''to_varname_without_excess_underscores'', ''skipna_cases'', ''generate_test_cases'',
      ''gen_params_wo_data'', ''gen_usecase_params'', ''gen_call_expr'', ''gen_test'',
      ''create_func'', ''gen_usecase'', ''skip_numba_jit'']"

definition builtin_names :: "string list" where
  "builtin_names =
    [''ArithmeticError'', ''AssertionError'', ''AttributeError'', ''BaseException'',
     ''BaseExceptionGroup'', ''BlockingIOError'', ''BrokenPipeError'', ''BufferError'',
     ''BytesWarning'', ''ChildProcessError'', ''ConnectionAbortedError'',
     ''ConnectionError'', ''ConnectionRefusedError'', ''ConnectionResetError'',
     ''DeprecationWarning'', ''EOFError'', ''Ellipsis'', ''EncodingWarning'',
     ''EnvironmentError'', ''Exception'', ''ExceptionGroup'', ''FileExistsError'',
     ''FileNotFoundError'', ''FloatingPointError'', ''FutureWarning'', ''GeneratorExit'',
     ''IOError'', ''ImportError'', ''ImportWarning'', ''IndentationError'', ''IndexError'',
     ''InterruptedError'', ''IsADirectoryError'', ''KeyError'', ''KeyboardInterrupt'',
     ''LookupError'', ''MemoryError'', ''ModuleNotFoundError'', ''NameError'',
     ''NotADirectoryError'', ''NotImplemented'', ''NotImplementedError'', ''OSError'',
     ''OverflowError'', ''PendingDeprecationWarning'', ''PermissionError'',
     ''ProcessLookupError'', ''RecursionError'', ''ReferenceError'', ''ResourceWarning'',
     ''RuntimeError'', ''RuntimeWarning'', ''StopAsyncIteration'', ''StopIteration'',
     ''SyntaxError'', ''SyntaxWarning'', ''SystemError'', ''SystemExit'', ''TabError'',
     ''TimeoutError'', ''TypeError'', ''UnboundLocalError'', ''UnicodeDecodeError'',
     ''UnicodeEncodeError'', ''UnicodeError'', ''UnicodeTranslateError'',
     ''UnicodeWarning'', ''UserWarning'', ''ValueError'', ''Warning'',
     ''ZeroDivisionError'', ''__build_class__'', ''__doc__'', ''__import__'',
     ''__loader__'', ''__name__'', ''__package__'', ''__spec__'', ''abs'', ''aiter'',
     ''all'', ''anext'', ''any'', ''ascii'', ''bin'', ''bool'', ''breakpoint'',
     ''bytearray'', ''bytes'', ''callable'', ''chr'', ''classmethod'', ''compile'',
     ''complex'', ''copyright'', ''credits'', ''delattr'', ''dict'', ''dir'', ''divmod'',
     ''enumerate'', ''eval'', ''exec'', ''exit'', ''filter'', ''float'', ''format'',
     ''frozenset'', ''getattr'', ''globals'', ''hasattr'', ''hash'', ''help'', ''hex'',
     ''id'', ''input'', ''int'', ''isinstance'', ''issubclass'', ''iter'', ''len'',
     ''license'', ''list'', ''locals'', ''map'', ''max'', ''memoryview'', ''min'',
     ''next'', ''object'', ''oct'', ''open'', ''ord'', ''pow'', ''print'', ''property'',
     ''quit'', ''range'', ''repr'', ''reversed'', ''round'', ''set'', ''setattr'',
     ''slice'', ''sorted'', ''staticmethod'', ''str'', ''sum'', ''super'', ''tuple'',
     ''type'', ''vars'', ''zip'']"

definition module_globals :: "string \<rightharpoonup> pyval" where
  "module_globals = map_of (map (\<lambda>n. (n, VObj n)) (module_names @ builtin_names))"

subsubsection \<open>Notions used to state what the compiler checks\<close>




fun rename_expr :: "(string \<Rightarrow> string) \<Rightarrow> expr \<Rightarrow> expr" where
  "rename_expr r (Name n) = Name (r n)"
| "rename_expr r (Num k) = Num k"
| "rename_expr r (Pos e) = Pos (rename_expr r e)"
| "rename_expr r (Add a b) = Add (rename_expr r a) (rename_expr r b)"
| "rename_expr r (Attr e n) = Attr (rename_expr r e) (r n)"
| "rename_expr r (Call f es) = Call (rename_expr r f) (map (rename_expr r) es)"
| "rename_expr r (Tuple es) = Tuple (map (rename_expr r) es)"

definition rename_frame :: "(string \<Rightarrow> string) \<Rightarrow> frame \<Rightarrow> frame" where
  "rename_frame r f =
     Frame (f_kind f) (map (rename_expr r) (f_items f)) (map_option (rename_expr r) (f_acc f))
       (f_upl f) (map_option (rename_expr r) (f_cur f))"


subsection \<open>gen\_usecase\<close>

text \<open>
  \<open>create_func\<close> is the one place of the module where Python text is executed.
  \<open>gen_usecase\<close>, \<open>gen_test\<close> and \<open>generate_test_cases\<close> only pass its result on,
  so they are written over the synthesizer as a parameter \<open>synth\<close>, with any type of
  callables and of exceptions: what is proved of \<open>gen_usecase_with synth\<close> for every
  \<open>synth\<close> holds of the module with the \<open>exec\<close> of Python itself, on every text. The
  names of the source stand for the instances at the \<open>create_func\<close> above, which
  evaluate closed examples inside the fragment; an \<open>Unmodelled\<close> of such an instance says
  that the fragment does not determine what \<open>exec\<close> does, not that an exception leaves
  the function.

  \<open>gen_usecase\<close> returns either the function itself or, for a list of
  \<open>CallExpression\<close>s, a list of dictionaries with the keys \<open>func\<close>, \<open>type_\<close> and
  \<open>jitted\<close>. The loop over the list stops at the first synthesis that raises.
\<close>

record 'p result_entry =
  r_func :: 'p
  r_type :: string
  r_jitted :: bool

datatype 'p usecase = Callable 'p | Results "'p result_entry list"

definition result_of :: "'p \<Rightarrow> CallExpression \<Rightarrow> 'p result_entry" where
  "result_of f ce = \<lparr> r_func = f, r_type = ce_type ce, r_jitted = jitted ce \<rparr>"

fun create_results ::
  "(string option \<Rightarrow> string \<Rightarrow> 'e + 'p) \<Rightarrow> string option \<Rightarrow> CallExpression list
     \<Rightarrow> 'e + 'p result_entry list" where
  "create_results synth usecase_params' [] = Inr []"
| "create_results synth usecase_params' (ce # ces) =
     (case synth usecase_params' (code ce) of
        Inl err \<Rightarrow> Inl err
      | Inr f \<Rightarrow>
          (case create_results synth usecase_params' ces of
             Inl err \<Rightarrow> Inl err
           | Inr results \<Rightarrow>
               Inr (result_of f ce # results)))"

definition gen_usecase_with ::
  "(string option \<Rightarrow> string \<Rightarrow> 'e + 'p) \<Rightarrow> ('g, 'i) TestCase \<Rightarrow> string \<Rightarrow> 'e + 'p usecase" where
  "gen_usecase_with synth test_case prefix =
     (let (usecase_params1, call_expr1) =
            (case call_expr test_case of
               None \<Rightarrow>
                 ((case usecase_params test_case of
                     None \<Rightarrow> Some (gen_usecase_params test_case)
                   | Some u \<Rightarrow> Some u),
                  CEStr (gen_call_expr test_case prefix))
             | Some ce \<Rightarrow> (usecase_params test_case, ce))
      in case call_expr1 of
           CEList ces \<Rightarrow>
             (case create_results synth usecase_params1 ces of
                Inl err \<Rightarrow> Inl err
              | Inr results \<Rightarrow> Inr (Results results))
         | CEStr s \<Rightarrow>
             (case synth usecase_params1 s of
                Inl err \<Rightarrow> Inl err
              | Inr func \<Rightarrow> Inr (Callable func)))"

abbreviation gen_usecase :: "('g, 'i) TestCase \<Rightarrow> string \<Rightarrow> error + probe usecase" where
  "gen_usecase \<equiv> gen_usecase_with create_func"

subsection \<open>gen\_test\<close>

text \<open>
  The closure \<open>func(self)\<close> that \<open>gen_test\<close> builds calls \<open>self._test_case\<close> once, with
  the arguments recorded here; \<open>_test_case\<close> belongs to the test class, outside the module.
\<close>

record ('g, 'i, 'p) harness_call =
  h_usecase :: "'p usecase"
  h_name :: string
  h_total_data_length :: "nat list"
  h_data_num :: int
  h_data_gens :: "'g list option"
  h_input_data :: "'i list option"

datatype ('g, 'i, 'p) test_method =
    Method "('g, 'i, 'p) harness_call"
  | SkipWrapped "('g, 'i, 'p) test_method"

text \<open>
  Modelled from the spec: \<open>skip_numba_jit\<close> comes from \<open>sdc.tests.test_utils\<close>, which
  is not among the sources. The spec says of it: "If descriptor.skip is set, wrap the
  method so invocation reports a skipped outcome without ever invoking the probe or the
  external entry point."
\<close>

definition skip_numba_jit :: "('g, 'i, 'p) test_method \<Rightarrow> ('g, 'i, 'p) test_method" where
  "skip_numba_jit func = SkipWrapped func"

definition gen_test_with ::
  "(string option \<Rightarrow> string \<Rightarrow> 'e + 'p) \<Rightarrow> ('g, 'i) TestCase \<Rightarrow> string
     \<Rightarrow> 'e + ('g, 'i, 'p) test_method" where
  "gen_test_with synth test_case prefix =
     (case gen_usecase_with synth test_case prefix of
        Inl err \<Rightarrow> Inl err
      | Inr usecase \<Rightarrow>
          (let test_name = name test_case @
                 (if params test_case \<noteq> [] then ''('' @ params test_case @ '')'' else []);
               func = Method \<lparr> h_usecase = usecase, h_name = test_name,
                 h_total_data_length = tc_size test_case, h_data_num = data_num test_case,
                 h_data_gens = data_gens test_case, h_input_data = input_data test_case \<rparr>
           in Inr (if skip test_case then skip_numba_jit func else func)))"

abbreviation gen_test ::
  "('g, 'i) TestCase \<Rightarrow> string \<Rightarrow> error + ('g, 'i, probe) test_method" where
  "gen_test \<equiv> gen_test_with create_func"



subsection \<open>generate\_test\_cases\<close>

text \<open>
  Modelled from the spec: \<open>to_varname\<close> comes from \<open>sdc.io.csv_ext\<close>, which is not
  among the sources. The spec says the name synthesis "maps every character outside a
  safe identifier alphabet to the separator"; the alphabet is letters, digits and the
  underscore, the separator is the underscore.
\<close>

definition to_varname :: "string \<Rightarrow> string" where
  "to_varname s = map (\<lambda>c. if is_name_char c then c else CHR ''_'') s"

definition to_varname_without_excess_underscores :: "string \<Rightarrow> string" where
  "to_varname_without_excess_underscores s =
     join_py ''_'' (filter (\<lambda>i. i \<noteq> []) (split_py ''_'' (to_varname s)))"

definition test_name_of :: "string \<Rightarrow> string \<Rightarrow> ('g, 'i) TestCase \<Rightarrow> string" where
  "test_name_of typ prefix test_case =
     (let test_name_parts = [''test'', typ, prefix, name test_case, gen_params_wo_data test_case]
      in to_varname_without_excess_underscores (join_py ''_'' test_name_parts))"

text \<open>
  The class that receives the methods is its attribute dictionary; \<open>setattr\<close> is an
  update of the map. The loop runs over \<open>skipna_cases(cases)\<close>; an exception of the
  synthesis inside \<open>gen_test\<close> leaves it, with the attributes set so far still in place,
  so the result is the class as it was left and the exception, if any.
\<close>

type_synonym ('g, 'i, 'p) test_class = "string \<rightharpoonup> ('g, 'i, 'p) test_method"

fun register_cases ::
  "(string option \<Rightarrow> string \<Rightarrow> 'e + 'p) \<Rightarrow> ('g, 'i) TestCase list \<Rightarrow> ('g, 'i, 'p) test_class
     \<Rightarrow> string \<Rightarrow> string \<Rightarrow> ('g, 'i, 'p) test_class \<times> 'e option" where
  "register_cases synth [] class_add typ prefix = (class_add, None)"
| "register_cases synth (test_case # rest) class_add typ prefix =
     (case gen_test_with synth test_case prefix of
        Inl err \<Rightarrow> (class_add, Some err)
      | Inr m \<Rightarrow>
          register_cases synth rest
            (class_add(test_name_of typ prefix test_case \<mapsto> m)) typ prefix)"

definition generate_test_cases_with ::
  "(string option \<Rightarrow> string \<Rightarrow> 'e + 'p) \<Rightarrow> ('g, 'i) TestCase list \<Rightarrow> ('g, 'i, 'p) test_class
     \<Rightarrow> string \<Rightarrow> string \<Rightarrow> ('g, 'i, 'p) test_class \<times> 'e option" where
  "generate_test_cases_with synth cases class_add typ prefix =
     register_cases synth (skipna_cases cases) class_add typ prefix"

abbreviation generate_test_cases ::
  "('g, 'i) TestCase list \<Rightarrow> ('g, 'i, probe) test_class \<Rightarrow> string \<Rightarrow> string
     \<Rightarrow> ('g, 'i, probe) test_class \<times> error option" where
  "generate_test_cases \<equiv> generate_test_cases_with create_func"

section \<open>Properties\<close>

subsection \<open>Evaluation of concrete texts\<close>

lemmas tokenize_defs = is_name_start_def is_name_char_def is_digit_def

lemmas parse_defs = parse_expr_def new_frame_def finish_def idle_def set_cur_def
  close_items_def close_group_def

lemmas compile_defs = compile_expr_def compile_params_def py_keywords_def unmodelled_names_def
  format_str_def create_func_def

lemmas partition_defs = gen_usecase_params_def gen_params_wo_data_def extra_tokens_def
  literal_tokens_def partition_width_def param_tokens_def slice_to_def slice_from_def

subsection \<open>Expansion of the skipna variants\<close>

lemma skipna_cases_append: "skipna_cases (xs @ ys) = skipna_cases xs @ skipna_cases ys"
  by (induction xs) simp_all

text \<open>
  C4. A descriptor with \<open>check_skipna\<close> set is replaced, at its place in the sequence, by
  exactly two descriptors: first a copy whose \<open>params\<close> has \<open>skipna=True\<close> appended, then
  a copy with \<open>skipna=False\<close> appended, after a separator \<open>', '\<close> when \<open>params\<close> is not
  empty. The copies differ from the descriptor in \<open>params\<close> only, and the descriptor itself
  is a value that nothing changes. A descriptor without \<open>check_skipna\<close> is yielded as it is.
\<close>

theorem skipna_cases_expands:
  "skipna_cases (pre @ d # post) =
     skipna_cases pre @
     (if check_skipna d
      then [d\<lparr>params := (if params d = [] then [] else params d @ '', '') @ ''skipna=True''\<rparr>,
            d\<lparr>params := (if params d = [] then [] else params d @ '', '') @ ''skipna=False''\<rparr>]
      else [d]) @
     skipna_cases post"
  by (simp add: skipna_cases_append skipna_params_def str_bool_def)

theorem skipna_cases_expands_witness:
  "skipna_cases [(mk_case ''sum'' [10] :: (unit, unit) TestCase)
       \<lparr>params := ''axis=0'', check_skipna := True\<rparr>,
     mk_case ''abs'' [10]] =
   [(mk_case ''sum'' [10])\<lparr>params := ''axis=0, skipna=True'', check_skipna := True\<rparr>,
    (mk_case ''sum'' [10])\<lparr>params := ''axis=0, skipna=False'', check_skipna := True\<rparr>,
    mk_case ''abs'' [10]]"
  using skipna_cases_expands [of "[]"
      "(mk_case ''sum'' [10] :: (unit, unit) TestCase)\<lparr>params := ''axis=0'', check_skipna := True\<rparr>"
      "[mk_case ''abs'' [10]]"]
  by (simp add: mk_case_def)

subsection \<open>The parameter partition\<close>

text \<open>
  C5, as the code has it. The width of the partition is the number of generators when
  they are given, and otherwise \<open>data_num - 1\<close>, which is the \<open>max(data_num - 1, 0)\<close>
  of the spec when \<open>data_num\<close> is at least 1: the usecase signature is \<open>data\<close> followed by
  the first \<open>width\<close> tokens of \<open>params\<close>, and the parameters without data are the
  remaining tokens. Nothing clamps the width at 0: for \<open>data_num\<close> at most 0 the negative
  bound \<open>data_num - 1\<close> of the two slices counts from the end, so that the extra tokens
  are all the tokens but the last \<open>1 - data_num\<close> and the literal tokens are those last
  ones. The tokens are the pieces between the separators \<open>', '\<close>. The three examples of
  the spec hold: \<open>x, y, z\<close> with \<open>data_num = 3\<close>, with \<open>data_num = 1\<close>, and with two
  generators and \<open>data_num = 5\<close>.
\<close>

theorem partition_by_width:
  "(data_gens d = Some gens \<longrightarrow>
      gen_usecase_params d = join_py '', '' (''data'' # take (length gens) (param_tokens d)) \<and>
      gen_params_wo_data d = join_py '', '' (drop (length gens) (param_tokens d))) \<and>
   (data_gens d = None \<and> 1 \<le> data_num d \<longrightarrow>
      gen_usecase_params d =
        join_py '', '' (''data'' # take (nat (data_num d - 1)) (param_tokens d)) \<and>
      gen_params_wo_data d = join_py '', '' (drop (nat (data_num d - 1)) (param_tokens d))) \<and>
   (data_gens d = None \<and> data_num d \<le> 0 \<longrightarrow>
      gen_usecase_params d =
        join_py '', '' (''data'' #
          take (length (param_tokens d) - nat (1 - data_num d)) (param_tokens d)) \<and>
      gen_params_wo_data d =
        join_py '', '' (drop (length (param_tokens d) - nat (1 - data_num d)) (param_tokens d))) \<and>
   (data_gens d \<noteq> None \<or> 1 \<le> data_num d \<longrightarrow>
      gen_usecase_params d = join_py '', '' (''data'' # extra_tokens d) \<and>
      gen_params_wo_data d = join_py '', '' (literal_tokens d)) \<and>
   (let d3 = (mk_case ''add'' [10] :: (nat, unit) TestCase)\<lparr>params := ''x, y, z'', data_num := 3\<rparr>
    in extra_tokens d3 = [''x'', ''y''] \<and> literal_tokens d3 = [''z''] \<and>
       gen_usecase_params d3 = ''data, x, y'' \<and> gen_params_wo_data d3 = ''z'') \<and>
   (let d1 = (mk_case ''add'' [10] :: (nat, unit) TestCase)\<lparr>params := ''x, y, z'', data_num := 1\<rparr>
    in extra_tokens d1 = [] \<and> literal_tokens d1 = [''x'', ''y'', ''z''] \<and>
       gen_usecase_params d1 = ''data'' \<and> gen_params_wo_data d1 = ''x, y, z'') \<and>
   (let dg = (mk_case ''add'' [10] :: (nat, unit) TestCase)
               \<lparr>params := ''x, y, z'', data_num := 5, data_gens := Some [0, 1]\<rparr>
    in partition_width dg = 2 \<and> length (extra_tokens dg) = 2 \<and>
       gen_usecase_params dg = ''data, x, y'' \<and> gen_params_wo_data dg = ''z'')"
proof (intro conjI impI)
  assume "data_gens d = Some gens"
  then show "gen_usecase_params d =
      join_py '', '' (''data'' # take (length gens) (param_tokens d))"
    and "gen_params_wo_data d = join_py '', '' (drop (length gens) (param_tokens d))"
    by (simp_all add: partition_defs)
next
  assume "data_gens d = None \<and> 1 \<le> data_num d"
  then show "gen_usecase_params d =
      join_py '', '' (''data'' # take (nat (data_num d - 1)) (param_tokens d))"
    and "gen_params_wo_data d = join_py '', '' (drop (nat (data_num d - 1)) (param_tokens d))"
    by (simp_all add: partition_defs)
next
  assume a: "data_gens d = None \<and> data_num d \<le> 0"
  then have neg: "\<not> 0 \<le> data_num d - 1" and eq: "- (data_num d - 1) = 1 - data_num d"
    by simp_all
  from a show "gen_usecase_params d =
      join_py '', '' (''data'' #
        take (length (param_tokens d) - nat (1 - data_num d)) (param_tokens d))"
    by (simp add: gen_usecase_params_def slice_to_def param_tokens_def neg eq)
  from a show "gen_params_wo_data d =
      join_py '', '' (drop (length (param_tokens d) - nat (1 - data_num d)) (param_tokens d))"
    by (simp add: gen_params_wo_data_def slice_from_def param_tokens_def neg eq)
next
  assume "data_gens d \<noteq> None \<or> 1 \<le> data_num d"
  then show "gen_usecase_params d = join_py '', '' (''data'' # extra_tokens d)"
    and "gen_params_wo_data d = join_py '', '' (literal_tokens d)"
    by (auto simp: partition_defs Let_def split: option.splits)
qed (simp_all add: partition_defs mk_case_def Let_def)

theorem partition_by_width_witness:
  "data_gens ((mk_case ''add'' [10] :: (nat, unit) TestCase)\<lparr>params := ''a, b'', data_num := 2\<rparr>)
     = None \<and>
   1 \<le> data_num ((mk_case ''add'' [10] :: (nat, unit) TestCase)\<lparr>params := ''a, b'', data_num := 2\<rparr>) \<and>
   gen_usecase_params ((mk_case ''add'' [10] :: (nat, unit) TestCase)\<lparr>params := ''a, b'', data_num := 2\<rparr>)
     = ''data, a'' \<and>
   gen_params_wo_data ((mk_case ''add'' [10] :: (nat, unit) TestCase)\<lparr>params := ''a, b'', data_num := 2\<rparr>)
     = ''b'' \<and>
   data_num ((mk_case ''add'' [10] :: (nat, unit) TestCase)\<lparr>params := ''a, b, c'', data_num := - 1\<rparr>)
     \<le> 0 \<and>
   gen_usecase_params ((mk_case ''add'' [10] :: (nat, unit) TestCase)\<lparr>params := ''a, b, c'', data_num := - 1\<rparr>)
     = ''data, a'' \<and>
   gen_params_wo_data ((mk_case ''add'' [10] :: (nat, unit) TestCase)\<lparr>params := ''a, b, c'', data_num := - 1\<rparr>)
     = ''b, c''"
proof -
  let ?d2 = "(mk_case ''add'' [10] :: (nat, unit) TestCase)\<lparr>params := ''a, b'', data_num := 2\<rparr>"
  let ?dm = "(mk_case ''add'' [10] :: (nat, unit) TestCase)\<lparr>params := ''a, b, c'', data_num := - 1\<rparr>"
  have p2: "data_gens ?d2 = None \<and> 1 \<le> data_num ?d2"
    by (simp add: mk_case_def)
  have t2: "param_tokens ?d2 = [''a'', ''b'']" "nat (data_num ?d2 - 1) = 1"
    by (simp_all add: param_tokens_def mk_case_def)
  from partition_by_width [of ?d2, THEN conjunct2, THEN conjunct1] p2
  have r2: "gen_usecase_params ?d2 = ''data, a'' \<and> gen_params_wo_data ?d2 = ''b''"
    unfolding t2 by simp
  have pm: "data_gens ?dm = None \<and> data_num ?dm \<le> 0"
    by (simp add: mk_case_def)
  have tm: "param_tokens ?dm = [''a'', ''b'', ''c'']" "nat (1 - data_num ?dm) = 2"
    by (simp_all add: param_tokens_def mk_case_def)
  from partition_by_width [of ?dm, THEN conjunct2, THEN conjunct2, THEN conjunct1] pm
  have rm: "gen_usecase_params ?dm = ''data, a'' \<and> gen_params_wo_data ?dm = ''b, c''"
    unfolding tm by simp
  from p2 r2 pm rm show ?thesis by blast
qed

text \<open>
  The claim as stated fails: for \<open>params = 'x, y, z'\<close> and \<open>data_num = 0\<close> the claimed
  width \<open>max(data_num - 1, 0)\<close> is 0, with no extra token and three literal tokens, but
  the code computes the signature \<open>data, x, y\<close> and the parameters without data \<open>z\<close>.
\<close>

theorem partition_by_width_counterexample:
  "partition_width ((mk_case ''add'' [10] :: (nat, unit) TestCase)
      \<lparr>params := ''x, y, z'', data_num := 0\<rparr>) = 0 \<and>
   extra_tokens ((mk_case ''add'' [10] :: (nat, unit) TestCase)
      \<lparr>params := ''x, y, z'', data_num := 0\<rparr>) = [] \<and>
   literal_tokens ((mk_case ''add'' [10] :: (nat, unit) TestCase)
      \<lparr>params := ''x, y, z'', data_num := 0\<rparr>) = [''x'', ''y'', ''z''] \<and>
   gen_usecase_params ((mk_case ''add'' [10] :: (nat, unit) TestCase)
      \<lparr>params := ''x, y, z'', data_num := 0\<rparr>) = ''data, x, y'' \<and>
   gen_params_wo_data ((mk_case ''add'' [10] :: (nat, unit) TestCase)
      \<lparr>params := ''x, y, z'', data_num := 0\<rparr>) = ''z''"
  by (simp add: partition_defs mk_case_def)

subsection \<open>The default call expression\<close>

text \<open>
  C8. The default call expression joins with dots the root \<open>data\<close>, the prefix when it is
  not empty, and \<open>name(params)\<close>. So \<open>sum\<close> with no parameters and no prefix gives
  \<open>data.sum()\<close>, and \<open>contains\<close> with the parameter \<open>'a'\<close> and the prefix \<open>str\<close> gives
  \<open>data.str.contains('a')\<close> (the quote is the character 0x27).
\<close>

theorem gen_call_expr_default:
  "gen_call_expr d prefix =
     ''data.'' @ (if prefix = [] then [] else prefix @ ''.'') @ name d @ ''('' @ params d @ '')'' \<and>
   gen_call_expr (mk_case ''sum'' [10] :: (unit, unit) TestCase) '''' = ''data.sum()'' \<and>
   gen_call_expr ((mk_case ''contains'' [10] :: (unit, unit) TestCase)
       \<lparr>params := [CHR 0x27, CHR ''a'', CHR 0x27]\<rparr>) ''str''
     = ''data.str.contains('' @ [CHR 0x27, CHR ''a'', CHR 0x27] @ '')''"
  by (simp add: gen_call_expr_def mk_case_def)

theorem gen_call_expr_default_witness:
  "gen_call_expr ((mk_case ''count'' [10] :: (unit, unit) TestCase)\<lparr>params := ''x''\<rparr>) ''str''
     = ''data.str.count(x)''"
  using gen_call_expr_default [of "(mk_case ''count'' [10] :: (unit, unit) TestCase)\<lparr>params := ''x''\<rparr>" "''str''"]
  by (simp add: mk_case_def)

subsection \<open>Skipped tests\<close>




subsection \<open>What create\_func checks, and when\<close>





lemma compile_params_errors:
  "compile_params s = Inl e \<Longrightarrow> e = SyntaxError \<or> e = Unmodelled"
  by (auto simp: compile_params_def split: option.splits if_splits)

lemma compile_expr_errors:
  "compile_expr s = Inl e \<Longrightarrow> e = SyntaxError \<or> e = Unmodelled"
  by (auto simp: compile_expr_def split: option.splits if_splits)

lemma create_func_errors:
  "create_func ps ce = Inl e \<Longrightarrow> e = SyntaxError \<or> e = Unmodelled"
  by (auto simp: create_func_def split: sum.splits error.splits
      dest: compile_params_errors compile_expr_errors)

lemma create_func_Inr:
  "create_func ps ce = Inr f \<longleftrightarrow>
     (\<exists>ns e. compile_params (format_str ps) = Inr ns \<and> compile_expr ce = Inr e \<and>
        f = \<lparr>p_params = ns, p_body = e\<rparr>)"
  by (auto simp: create_func_def split: sum.splits error.splits)




lemma rename_frame_sel [simp]:
  "f_kind (rename_frame r f) = f_kind f"
  "f_items (rename_frame r f) = map (rename_expr r) (f_items f)"
  "f_acc (rename_frame r f) = map_option (rename_expr r) (f_acc f)"
  "f_upl (rename_frame r f) = f_upl f"
  "f_cur (rename_frame r f) = map_option (rename_expr r) (f_cur f)"
  by (simp_all add: rename_frame_def)

lemma rename_frame_Frame [simp]:
  "rename_frame r (Frame k its a u c) =
     Frame k (map (rename_expr r) its) (map_option (rename_expr r) a) u
       (map_option (rename_expr r) c)"
  by (simp add: rename_frame_def)





lemma set_cur_rename:
  "set_cur (rename_expr r e) (rename_frame r f) = rename_frame r (set_cur e f)"
  by (simp add: set_cur_def)






















subsection \<open>What a call of the synthesized function returns\<close>

text \<open>
  C6, as the code has it. The function synthesized from the signature \<open>data, other\<close> and
  the expression \<open>data + other\<close>, called with 5 and 3, returns a pair whose second element
  is 8 and whose first element is the difference of the two readings of \<open>time.time()\<close>.
  In general a call that returns, returns the pair of that difference and the value of the
  expression; the difference is non-negative exactly when the wall clock did not go
  backwards between the two readings.
\<close>

theorem call_func_returns_pair:
  "(\<exists>f. create_func (Some ''data, other'') ''data + other'' = Inr f \<and>
        (\<forall>glob t1 t2. call_func glob t1 t2 f [VInt 5, VInt 3] = Inr (t2 - t1, VInt 8))) \<and>
   (call_func glob start_time finish_time g args = Inr (d, r) \<longrightarrow>
      d = finish_time - start_time \<and> (0 \<le> d \<longleftrightarrow> start_time \<le> finish_time) \<and>
      length args = length (p_params g) \<and>
      eval (map_of (zip (p_params g) args)) glob (p_body g) = Inr r)"
proof (intro conjI impI)
  have "create_func (Some ''data, other'') ''data + other'' =
     Inr \<lparr>p_params = [''data'', ''other''], p_body = Add (Name ''data'') (Name ''other'')\<rparr>"
    by (simp add: tokenize_defs parse_defs compile_defs)
  moreover have "\<forall>glob t1 t2. call_func glob t1 t2
     \<lparr>p_params = [''data'', ''other''], p_body = Add (Name ''data'') (Name ''other'')\<rparr>
     [VInt 5, VInt 3] = Inr (t2 - t1, VInt 8)"
    by (simp add: call_func_def)
  ultimately show "\<exists>f. create_func (Some ''data, other'') ''data + other'' = Inr f \<and>
        (\<forall>glob t1 t2. call_func glob t1 t2 f [VInt 5, VInt 3] = Inr (t2 - t1, VInt 8))"
    by blast
next
  assume a: "call_func glob start_time finish_time g args = Inr (d, r)"
  then show "d = finish_time - start_time" "length args = length (p_params g)"
    "eval (map_of (zip (p_params g) args)) glob (p_body g) = Inr r"
    by (auto simp: call_func_def split: if_splits sum.splits)
  then show "(0 \<le> d) = (start_time \<le> finish_time)" by simp
qed

theorem call_func_returns_pair_witness:
  "call_func module_globals 1 3
     \<lparr>p_params = [''data''], p_body = Add (Name ''data'') (Num 1)\<rparr> [VInt 4] = Inr (2, VInt 5) \<and>
   (2::real) = 3 - 1 \<and> (0 \<le> (2::real)) = ((1::real) \<le> 3)"
proof -
  have c: "call_func module_globals 1 3
     \<lparr>p_params = [''data''], p_body = Add (Name ''data'') (Num 1)\<rparr> [VInt 4] = Inr (2, VInt 5)"
    by (simp add: call_func_def)
  from call_func_returns_pair [of module_globals 1 3
      "\<lparr>p_params = [''data''], p_body = Add (Name ''data'') (Num 1)\<rparr>" "[VInt 4]" 2 "VInt 5"] c
  show ?thesis by simp
qed

text \<open>
  The claim as stated fails: \<open>time.time()\<close> is the wall clock, which can be set back
  between the two readings, and the measured duration is then negative.
\<close>

theorem call_func_duration_counterexample:
  "create_func (Some ''data, other'') ''data + other'' =
     Inr \<lparr>p_params = [''data'', ''other''], p_body = Add (Name ''data'') (Name ''other'')\<rparr> \<and>
   call_func module_globals 2 1
     \<lparr>p_params = [''data'', ''other''], p_body = Add (Name ''data'') (Name ''other'')\<rparr>
     [VInt 5, VInt 3] = Inr (- 1, VInt 8)"
  by (simp add: tokenize_defs parse_defs compile_defs call_func_def)

subsection \<open>Empty params with several data arguments\<close>

lemma compile_params_data: "compile_params ''data'' = Inr [''data'']"
  by (simp add: tokenize_defs compile_defs)

lemma compile_params_data_comma: "compile_params ''data, '' = Inr [''data'']"
  by (simp add: tokenize_defs compile_defs)

lemma gen_usecase_params_empty:
  assumes "params d = []" and "data_gens d = None" and "2 \<le> data_num d"
  shows "gen_usecase_params d = ''data, ''"
proof -
  from assms(3) obtain k where k: "nat (data_num d - 1) = Suc k"
    by (cases "nat (data_num d - 1)") auto
  from assms(3) have "0 \<le> data_num d - 1" by simp
  with assms(1,2) k show ?thesis
    by (simp add: gen_usecase_params_def slice_to_def)
qed

text \<open>
  C10, as the code has it. For a descriptor with empty \<open>params\<close>, no generators and
  \<open>data_num\<close> at least 2, the derived usecase signature is the text \<open>data, \<close>, since
  splitting the empty text yields one empty token. Synthesis from this signature does not
  fail: a comma after the last parameter is legal, so \<open>create_func\<close> does exactly what it
  does for the signature \<open>data\<close>, and returns a function of the one parameter \<open>data\<close>
  whenever the expression compiles. Such a function raises \<open>TypeError\<close> when it is called
  with a number of arguments other than one.
\<close>

theorem empty_params_signature:
  "params d = [] \<and> data_gens d = None \<and> 2 \<le> data_num d \<longrightarrow>
     gen_usecase_params d = ''data, '' \<and>
     create_func (Some (gen_usecase_params d)) ce = create_func (Some ''data'') ce \<and>
     (compile_expr ce = Inr e \<longrightarrow>
        create_func (Some (gen_usecase_params d)) ce = Inr \<lparr>p_params = [''data''], p_body = e\<rparr>) \<and>
     (create_func (Some (gen_usecase_params d)) ce = Inr f \<and> length args \<noteq> 1 \<longrightarrow>
        call_func glob t1 t2 f args = Inl TypeError)"
proof (intro impI)
  assume a: "params d = [] \<and> data_gens d = None \<and> 2 \<le> data_num d"
  then have g: "gen_usecase_params d = ''data, ''"
    using gen_usecase_params_empty by blast
  have eq: "create_func (Some ''data, '') ce = create_func (Some ''data'') ce"
    by (simp add: create_func_def format_str_def compile_params_data compile_params_data_comma)
  have ok: "compile_expr ce = Inr e \<longrightarrow>
      create_func (Some ''data, '') ce = Inr \<lparr>p_params = [''data''], p_body = e\<rparr>"
    by (simp add: create_func_def format_str_def compile_params_data_comma)
  have ty: "create_func (Some ''data, '') ce = Inr f \<and> length args \<noteq> 1 \<longrightarrow>
      call_func glob t1 t2 f args = Inl TypeError"
    by (auto simp: create_func_Inr format_str_def compile_params_data_comma call_func_def)
  from g eq ok ty show "gen_usecase_params d = ''data, '' \<and>
     create_func (Some (gen_usecase_params d)) ce = create_func (Some ''data'') ce \<and>
     (compile_expr ce = Inr e \<longrightarrow>
        create_func (Some (gen_usecase_params d)) ce = Inr \<lparr>p_params = [''data''], p_body = e\<rparr>) \<and>
     (create_func (Some (gen_usecase_params d)) ce = Inr f \<and> length args \<noteq> 1 \<longrightarrow>
        call_func glob t1 t2 f args = Inl TypeError)"
    by simp
qed

theorem empty_params_signature_witness:
  "params ((mk_case ''add'' [10] :: (unit, unit) TestCase)\<lparr>data_num := 3\<rparr>) = [] \<and>
   data_gens ((mk_case ''add'' [10] :: (unit, unit) TestCase)\<lparr>data_num := 3\<rparr>) = None \<and>
   2 \<le> data_num ((mk_case ''add'' [10] :: (unit, unit) TestCase)\<lparr>data_num := 3\<rparr>) \<and>
   gen_usecase_params ((mk_case ''add'' [10] :: (unit, unit) TestCase)\<lparr>data_num := 3\<rparr>) = ''data, '' \<and>
   compile_expr ''data.add()'' = Inr (Call (Attr (Name ''data'') ''add'') []) \<and>
   create_func (Some (gen_usecase_params ((mk_case ''add'' [10] :: (unit, unit) TestCase)\<lparr>data_num := 3\<rparr>)))
       ''data.add()''
     = Inr \<lparr>p_params = [''data''], p_body = Call (Attr (Name ''data'') ''add'') []\<rparr>"
proof -
  let ?d = "(mk_case ''add'' [10] :: (unit, unit) TestCase)\<lparr>data_num := 3\<rparr>"
  have pre: "params ?d = [] \<and> data_gens ?d = None \<and> 2 \<le> data_num ?d"
    by (simp add: mk_case_def)
  have e: "compile_expr ''data.add()'' = Inr (Call (Attr (Name ''data'') ''add'') [])"
    by (simp add: tokenize_defs parse_defs compile_defs)
  from empty_params_signature [where d = "?d" and ce = "''data.add()''"
      and e = "Call (Attr (Name ''data'') ''add'') []"] pre e
  have "gen_usecase_params ?d = ''data, '' \<and>
     create_func (Some (gen_usecase_params ?d)) ''data.add()''
       = Inr \<lparr>p_params = [''data''], p_body = Call (Attr (Name ''data'') ''add'') []\<rparr>"
    by blast
  with pre e show ?thesis by blast
qed

text \<open>
  The claim as stated fails: for \<open>TestCase(name='add', size=[10], data_num=2)\<close> the
  signature is \<open>data, \<close> and \<open>gen_usecase\<close> returns the synthesized function; no
  \<open>SyntaxError\<close> is raised.
\<close>

theorem empty_params_signature_counterexample:
  "gen_usecase_params ((mk_case ''add'' [10] :: (unit, unit) TestCase)\<lparr>data_num := 2\<rparr>) = ''data, '' \<and>
   gen_usecase ((mk_case ''add'' [10] :: (unit, unit) TestCase)\<lparr>data_num := 2\<rparr>) '''' =
     Inr (Callable \<lparr>p_params = [''data''], p_body = Call (Attr (Name ''data'') ''add'') []\<rparr>)"
  by (simp add: gen_usecase_with_def gen_usecase_params_def gen_call_expr_def slice_to_def
      mk_case_def tokenize_defs parse_defs compile_defs)

subsection \<open>What gen\_usecase returns\<close>

lemma map_sum_id_Inr: "map_sum id g x = Inr u \<longleftrightarrow> (\<exists>y. x = Inr y \<and> u = g y)"
  by (cases x) auto

lemma create_results_all:
  "list_all (\<lambda>ce. \<not> isl (synth sig (code ce))) ces \<Longrightarrow>
     create_results synth sig ces =
       Inr (map (\<lambda>ce. \<lparr>r_func = projr (synth sig (code ce)), r_type = ce_type ce,
                        r_jitted = jitted ce\<rparr>) ces)"
proof (induction ces)
  case Nil
  then show ?case by simp
next
  case (Cons ce ces)
  then show ?case
    by (cases "synth sig (code ce)") (simp_all add: result_of_def)
qed

lemma create_results_Inr:
  "create_results synth sig ces = Inr rs \<Longrightarrow>
     list_all (\<lambda>ce. \<not> isl (synth sig (code ce))) ces"
proof (induction ces arbitrary: rs)
  case Nil
  then show ?case by simp
next
  case (Cons ce ces)
  then show ?case
    by (cases "synth sig (code ce)"; cases "create_results synth sig ces") auto
qed

lemma create_results_Inl:
  "create_results synth sig ces = Inl err \<Longrightarrow>
     \<exists>pre ce post. ces = pre @ ce # post \<and>
        list_all (\<lambda>ce. \<not> isl (synth sig (code ce))) pre \<and> synth sig (code ce) = Inl err"
proof (induction ces)
  case Nil
  then show ?case by simp
next
  case (Cons c ces)
  show ?case
  proof (cases "synth sig (code c)")
    case (Inl e)
    with Cons.prems have "e = err" by simp
    with Inl have "c # ces = [] @ c # ces \<and> list_all (\<lambda>ce. \<not> isl (synth sig (code ce))) [] \<and>
        synth sig (code c) = Inl err"
      by simp
    then show ?thesis by blast
  next
    case (Inr f)
    with Cons.prems have "create_results synth sig ces = Inl err"
      by (cases "create_results synth sig ces") simp_all
    from Cons.IH [OF this] obtain pre ce post where p: "ces = pre @ ce # post"
      "list_all (\<lambda>ce. \<not> isl (synth sig (code ce))) pre" "synth sig (code ce) = Inl err"
      by blast
    with Inr have "c # ces = (c # pre) @ ce # post \<and>
        list_all (\<lambda>ce. \<not> isl (synth sig (code ce))) (c # pre) \<and> synth sig (code ce) = Inl err"
      by simp
    then show ?thesis by blast
  qed
qed

lemma gen_usecase_with_cases:
  "gen_usecase_with synth d prefix =
     (case call_expr d of
        None \<Rightarrow>
          map_sum id Callable
            (synth (Some (case usecase_params d of None \<Rightarrow> gen_usecase_params d | Some u \<Rightarrow> u))
               (gen_call_expr d prefix))
      | Some (CEStr s) \<Rightarrow> map_sum id Callable (synth (usecase_params d) s)
      | Some (CEList ces) \<Rightarrow> map_sum id Results (create_results synth (usecase_params d) ces))"
  by (simp add: gen_usecase_with_def split: option.splits call_expr_t.splits sum.splits)

text \<open>
  C2, as the code has it, for every synthesizer of functions \<open>synth\<close> in the place of
  \<open>create_func\<close>. When \<open>call_expr\<close> is absent, \<open>gen_usecase\<close> returns the very function
  synthesized from the signature (the explicit \<open>usecase_params\<close>, or else the derived one)
  and the default call expression, or raises what the synthesis raises. When \<open>call_expr\<close>
  is a single string, it returns the very function synthesized from \<open>usecase_params\<close> and
  that string. In both cases no record is built, and no category or compiled flag is
  attached. When \<open>call_expr\<close> is a list of \<open>k\<close> \<open>CallExpression\<close>s that all synthesize,
  it returns exactly \<open>k\<close> records in the order of the list (\<open>k\<close> may be 0), the record
  of an entry carrying the function synthesized from the entry's code and the same
  \<open>usecase_params\<close>, and the \<open>type_\<close> and \<open>jitted\<close> of the entry. It returns records in
  that case only; otherwise it raises what the synthesis of the first entry that does not
  synthesize raises.
\<close>

theorem gen_usecase_shape:
  "(call_expr d = None \<longrightarrow>
      gen_usecase_with synth d prefix =
        map_sum id Callable
          (synth (Some (case usecase_params d of None \<Rightarrow> gen_usecase_params d | Some u \<Rightarrow> u))
             (gen_call_expr d prefix))) \<and>
   (call_expr d = Some (CEStr s) \<longrightarrow>
      gen_usecase_with synth d prefix = map_sum id Callable (synth (usecase_params d) s)) \<and>
   (call_expr d = Some (CEList ces) \<and>
    list_all (\<lambda>ce. \<not> isl (synth (usecase_params d) (code ce))) ces \<longrightarrow>
      gen_usecase_with synth d prefix =
        Inr (Results (map (\<lambda>ce. \<lparr>r_func = projr (synth (usecase_params d) (code ce)),
                                  r_type = ce_type ce, r_jitted = jitted ce\<rparr>) ces))) \<and>
   (call_expr d = Some (CEList ces) \<and> gen_usecase_with synth d prefix = Inr u \<longrightarrow>
      list_all (\<lambda>ce. \<not> isl (synth (usecase_params d) (code ce))) ces \<and>
      (\<exists>rs. u = Results rs \<and> length rs = length ces)) \<and>
   (call_expr d = Some (CEList ces) \<and> gen_usecase_with synth d prefix = Inl err \<longrightarrow>
      (\<exists>pre ce post. ces = pre @ ce # post \<and>
         list_all (\<lambda>ce. \<not> isl (synth (usecase_params d) (code ce))) pre \<and>
         synth (usecase_params d) (code ce) = Inl err))"
proof (intro conjI impI)
  assume "call_expr d = None"
  then show "gen_usecase_with synth d prefix =
      map_sum id Callable
        (synth (Some (case usecase_params d of None \<Rightarrow> gen_usecase_params d | Some u \<Rightarrow> u))
           (gen_call_expr d prefix))"
    by (simp add: gen_usecase_with_cases)
next
  assume "call_expr d = Some (CEStr s)"
  then show "gen_usecase_with synth d prefix = map_sum id Callable (synth (usecase_params d) s)"
    by (simp add: gen_usecase_with_cases)
next
  assume "call_expr d = Some (CEList ces) \<and>
    list_all (\<lambda>ce. \<not> isl (synth (usecase_params d) (code ce))) ces"
  then show "gen_usecase_with synth d prefix =
      Inr (Results (map (\<lambda>ce. \<lparr>r_func = projr (synth (usecase_params d) (code ce)),
                                r_type = ce_type ce, r_jitted = jitted ce\<rparr>) ces))"
    by (simp add: gen_usecase_with_cases create_results_all)
next
  assume a: "call_expr d = Some (CEList ces) \<and> gen_usecase_with synth d prefix = Inr u"
  then obtain rs where rs: "create_results synth (usecase_params d) ces = Inr rs"
    and u: "u = Results rs"
    by (auto simp: gen_usecase_with_cases map_sum_id_Inr)
  from create_results_Inr [OF rs]
  show all: "list_all (\<lambda>ce. \<not> isl (synth (usecase_params d) (code ce))) ces" .
  from create_results_all [where synth = synth and sig = "usecase_params d" and ces = ces, OF all] rs
  have "length rs = length ces"
    by auto
  with u show "\<exists>rs. u = Results rs \<and> length rs = length ces"
    by simp
next
  assume a: "call_expr d = Some (CEList ces) \<and> gen_usecase_with synth d prefix = Inl err"
  then have c: "call_expr d = Some (CEList ces)"
    and g: "gen_usecase_with synth d prefix = Inl err"
    by simp_all
  from g have "map_sum id Results (create_results synth (usecase_params d) ces) = Inl err"
    by (simp add: gen_usecase_with_cases c)
  then have "create_results synth (usecase_params d) ces = Inl err"
    by (cases "create_results synth (usecase_params d) ces") simp_all
  then show "\<exists>pre ce post. ces = pre @ ce # post \<and>
       list_all (\<lambda>ce. \<not> isl (synth (usecase_params d) (code ce))) pre \<and>
       synth (usecase_params d) (code ce) = Inl err"
    by (rule create_results_Inl)
qed

lemma create_func_three:
  "create_func (Some ''data, other'') ''data + other'' =
     Inr \<lparr>p_params = [''data'', ''other''], p_body = Add (Name ''data'') (Name ''other'')\<rparr>"
  "create_func (Some ''data, other'') ''data.add(other)'' =
     Inr \<lparr>p_params = [''data'', ''other''],
          p_body = Call (Attr (Name ''data'') ''add'') [Name ''other'']\<rparr>"
  "create_func (Some ''data, other'') ''other + data'' =
     Inr \<lparr>p_params = [''data'', ''other''], p_body = Add (Name ''other'') (Name ''data'')\<rparr>"
  by (simp_all add: tokenize_defs parse_defs compile_defs)

theorem gen_usecase_shape_witness:
  "call_expr ((mk_case ''add'' [10] :: (unit, unit) TestCase)
      \<lparr>usecase_params := Some ''data, other'',
       call_expr := Some (CEList
         [\<lparr>code = ''data + other'', ce_type = ''Python'', jitted = False\<rparr>,
          \<lparr>code = ''data.add(other)'', ce_type = ''Numba'', jitted = True\<rparr>,
          \<lparr>code = ''other + data'', ce_type = ''SDC'', jitted = True\<rparr>])\<rparr>) =
     Some (CEList
         [\<lparr>code = ''data + other'', ce_type = ''Python'', jitted = False\<rparr>,
          \<lparr>code = ''data.add(other)'', ce_type = ''Numba'', jitted = True\<rparr>,
          \<lparr>code = ''other + data'', ce_type = ''SDC'', jitted = True\<rparr>]) \<and>
   gen_usecase ((mk_case ''add'' [10] :: (unit, unit) TestCase)
      \<lparr>usecase_params := Some ''data, other'',
       call_expr := Some (CEList
         [\<lparr>code = ''data + other'', ce_type = ''Python'', jitted = False\<rparr>,
          \<lparr>code = ''data.add(other)'', ce_type = ''Numba'', jitted = True\<rparr>,
          \<lparr>code = ''other + data'', ce_type = ''SDC'', jitted = True\<rparr>])\<rparr>) '''' =
   Inr (Results
     [\<lparr>r_func = \<lparr>p_params = [''data'', ''other''],
                 p_body = Add (Name ''data'') (Name ''other'')\<rparr>,
       r_type = ''Python'', r_jitted = False\<rparr>,
      \<lparr>r_func = \<lparr>p_params = [''data'', ''other''],
                 p_body = Call (Attr (Name ''data'') ''add'') [Name ''other'']\<rparr>,
       r_type = ''Numba'', r_jitted = True\<rparr>,
      \<lparr>r_func = \<lparr>p_params = [''data'', ''other''],
                 p_body = Add (Name ''other'') (Name ''data'')\<rparr>,
       r_type = ''SDC'', r_jitted = True\<rparr>]) \<and>
   call_expr (mk_case ''sum'' [10] :: (unit, unit) TestCase) = None \<and>
   gen_usecase (mk_case ''sum'' [10] :: (unit, unit) TestCase) '''' =
     Inr (Callable \<lparr>p_params = [''data''], p_body = Call (Attr (Name ''data'') ''sum'') []\<rparr>)"
proof -
  let ?ces = "[\<lparr>code = ''data + other'', ce_type = ''Python'', jitted = False\<rparr>,
          \<lparr>code = ''data.add(other)'', ce_type = ''Numba'', jitted = True\<rparr>,
          \<lparr>code = ''other + data'', ce_type = ''SDC'', jitted = True\<rparr>]"
  let ?d = "(mk_case ''add'' [10] :: (unit, unit) TestCase)
      \<lparr>usecase_params := Some ''data, other'', call_expr := Some (CEList ?ces)\<rparr>"
  let ?s = "mk_case ''sum'' [10] :: (unit, unit) TestCase"
  have ce: "call_expr ?d = Some (CEList ?ces)"
    by (simp add: mk_case_def)
  have up: "usecase_params ?d = Some ''data, other''"
    by (simp add: mk_case_def)
  have ok: "list_all (\<lambda>ce. \<not> isl (create_func (usecase_params ?d) (code ce))) ?ces"
    unfolding up by (simp add: create_func_three)
  from gen_usecase_shape [where d = "?d" and prefix = "''''" and ces = "?ces"
      and synth = create_func, THEN conjunct2, THEN conjunct2, THEN conjunct1] ce ok
  have "gen_usecase ?d '''' =
      Inr (Results (map (\<lambda>ce. \<lparr>r_func = projr (create_func (usecase_params ?d) (code ce)),
                                r_type = ce_type ce, r_jitted = jitted ce\<rparr>) ?ces))"
    by blast
  then have r1: "gen_usecase ?d '''' = Inr (Results
     [\<lparr>r_func = \<lparr>p_params = [''data'', ''other''],
                 p_body = Add (Name ''data'') (Name ''other'')\<rparr>,
       r_type = ''Python'', r_jitted = False\<rparr>,
      \<lparr>r_func = \<lparr>p_params = [''data'', ''other''],
                 p_body = Call (Attr (Name ''data'') ''add'') [Name ''other'']\<rparr>,
       r_type = ''Numba'', r_jitted = True\<rparr>,
      \<lparr>r_func = \<lparr>p_params = [''data'', ''other''],
                 p_body = Add (Name ''other'') (Name ''data'')\<rparr>,
       r_type = ''SDC'', r_jitted = True\<rparr>])"
    unfolding up by (simp add: create_func_three)
  have cs: "call_expr ?s = None" "usecase_params ?s = None"
    by (simp_all add: mk_case_def)
  have sig: "gen_usecase_params ?s = ''data''" "gen_call_expr ?s '''' = ''data.sum()''"
    by (simp_all add: gen_usecase_params_def gen_call_expr_def slice_to_def mk_case_def)
  have cf: "create_func (Some ''data'') ''data.sum()'' =
      Inr \<lparr>p_params = [''data''], p_body = Call (Attr (Name ''data'') ''sum'') []\<rparr>"
    by (simp add: tokenize_defs parse_defs compile_defs)
  from gen_usecase_shape [where d = "?s" and prefix = "''''" and synth = create_func,
      THEN conjunct1] cs(1)
  have "gen_usecase ?s '''' =
      map_sum id Callable
        (create_func (Some (case usecase_params ?s of None \<Rightarrow> gen_usecase_params ?s
                            | Some u \<Rightarrow> u)) (gen_call_expr ?s ''''))"
    by blast
  then have r2: "gen_usecase ?s '''' =
      Inr (Callable \<lparr>p_params = [''data''], p_body = Call (Attr (Name ''data'') ''sum'') []\<rparr>)"
    unfolding cs sig by (simp add: cf)
  from ce r1 cs(1) r2 show ?thesis by blast
qed

text \<open>
  The claim as stated fails: for \<open>TestCase(name='sum', size=[10])\<close> the result is the
  function, not a sequence holding a record with the category \<open>default\<close>; and for an
  empty list of \<open>CallExpression\<close>s the result is the empty sequence.
\<close>

theorem gen_usecase_shape_counterexample:
  "gen_usecase (mk_case ''sum'' [10] :: (unit, unit) TestCase) '''' =
     Inr (Callable \<lparr>p_params = [''data''], p_body = Call (Attr (Name ''data'') ''sum'') []\<rparr>) \<and>
   gen_usecase ((mk_case ''sum'' [10] :: (unit, unit) TestCase)
      \<lparr>usecase_params := Some ''data'', call_expr := Some (CEList [])\<rparr>) '''' = Inr (Results [])"
  by (simp add: gen_usecase_with_def gen_usecase_params_def gen_call_expr_def slice_to_def mk_case_def
      tokenize_defs parse_defs compile_defs)

subsection \<open>The signature that gen\_usecase synthesizes with\<close>

lemma compile_params_None: "compile_params ''None'' = Inl SyntaxError"
  by (simp add: tokenize_defs compile_defs)

lemma create_func_None:
  "create_func None s = (if compile_expr s = Inl Unmodelled then Inl Unmodelled else Inl SyntaxError)"
  by (auto simp: create_func_def format_str_def compile_params_None split: sum.splits error.splits)

lemma gen_usecase_params_extra:
  "data_gens d \<noteq> None \<or> 1 \<le> data_num d \<Longrightarrow>
     gen_usecase_params d = join_py '', '' (''data'' # extra_tokens d)"
  by (auto simp: partition_defs Let_def split: option.splits)

text \<open>
  C7, as the code has it. The signature is the explicit \<open>usecase_params\<close> when it is
  given. When it is not given and \<open>call_expr\<close> is absent, it is the text that
  \<open>gen_usecase_params\<close> derives from the descriptor, which is \<open>data\<close> followed by the
  extra data tokens of the parameter partition whenever generators are given or
  \<open>data_num\<close> is at least 1. When it is not given and \<open>call_expr\<close> is given, as a string
  or as a list, nothing is derived: \<open>usecase_params\<close> stays \<open>None\<close>, whose text \<open>None\<close>
  is a keyword, and no function can be synthesized from it.
\<close>

theorem gen_usecase_signature:
  "(call_expr d = None \<and> usecase_params d = Some u \<longrightarrow>
      gen_usecase d prefix = map_sum id Callable (create_func (Some u) (gen_call_expr d prefix))) \<and>
   (call_expr d = None \<and> usecase_params d = None \<longrightarrow>
      gen_usecase d prefix =
        map_sum id Callable
          (create_func (Some (gen_usecase_params d)) (gen_call_expr d prefix))) \<and>
   (data_gens d \<noteq> None \<or> 1 \<le> data_num d \<longrightarrow>
      gen_usecase_params d = join_py '', '' (''data'' # extra_tokens d)) \<and>
   (call_expr d = Some (CEStr s) \<longrightarrow>
      gen_usecase d prefix = map_sum id Callable (create_func (usecase_params d) s)) \<and>
   (call_expr d = Some (CEList ces) \<longrightarrow>
      gen_usecase d prefix =
        map_sum id Results (create_results create_func (usecase_params d) ces)) \<and>
   (call_expr d = Some (CEStr s) \<and> usecase_params d = None \<longrightarrow>
      (\<forall>f. gen_usecase d prefix \<noteq> Inr (Callable f)) \<and>
      (compile_expr s \<noteq> Inl Unmodelled \<longrightarrow> gen_usecase d prefix = Inl SyntaxError)) \<and>
   (call_expr d = Some (CEList (ce # ces)) \<and> usecase_params d = None \<longrightarrow>
      (\<forall>rs. gen_usecase d prefix \<noteq> Inr (Results rs)) \<and>
      (compile_expr (code ce) \<noteq> Inl Unmodelled \<longrightarrow> gen_usecase d prefix = Inl SyntaxError))"
proof (intro conjI impI allI)
  assume "call_expr d = None \<and> usecase_params d = Some u"
  then show "gen_usecase d prefix = map_sum id Callable (create_func (Some u) (gen_call_expr d prefix))"
    by (simp add: gen_usecase_with_cases)
next
  assume "call_expr d = None \<and> usecase_params d = None"
  then show "gen_usecase d prefix =
        map_sum id Callable
          (create_func (Some (gen_usecase_params d)) (gen_call_expr d prefix))"
    by (simp add: gen_usecase_with_cases)
next
  assume "data_gens d \<noteq> None \<or> 1 \<le> data_num d"
  then show "gen_usecase_params d = join_py '', '' (''data'' # extra_tokens d)"
    by (rule gen_usecase_params_extra)
next
  assume "call_expr d = Some (CEStr s)"
  then show "gen_usecase d prefix = map_sum id Callable (create_func (usecase_params d) s)"
    by (simp add: gen_usecase_with_cases)
next
  assume "call_expr d = Some (CEList ces)"
  then show "gen_usecase d prefix =
      map_sum id Results (create_results create_func (usecase_params d) ces)"
    by (simp add: gen_usecase_with_cases)
next
  fix f
  assume "call_expr d = Some (CEStr s) \<and> usecase_params d = None"
  then show "gen_usecase d prefix \<noteq> Inr (Callable f)"
    by (simp add: gen_usecase_with_cases create_func_None)
next
  assume "call_expr d = Some (CEStr s) \<and> usecase_params d = None"
    and "compile_expr s \<noteq> Inl Unmodelled"
  then show "gen_usecase d prefix = Inl SyntaxError"
    by (simp add: gen_usecase_with_cases create_func_None)
next
  fix rs
  assume "call_expr d = Some (CEList (ce # ces)) \<and> usecase_params d = None"
  then show "gen_usecase d prefix \<noteq> Inr (Results rs)"
    by (simp add: gen_usecase_with_cases create_func_None)
next
  assume "call_expr d = Some (CEList (ce # ces)) \<and> usecase_params d = None"
    and "compile_expr (code ce) \<noteq> Inl Unmodelled"
  then show "gen_usecase d prefix = Inl SyntaxError"
    by (simp add: gen_usecase_with_cases create_func_None)
qed

theorem gen_usecase_signature_witness:
  "call_expr ((mk_case ''add'' [10] :: (unit, unit) TestCase)
      \<lparr>params := ''other'', data_num := 2\<rparr>) = None \<and>
   usecase_params ((mk_case ''add'' [10] :: (unit, unit) TestCase)
      \<lparr>params := ''other'', data_num := 2\<rparr>) = None \<and>
   1 \<le> data_num ((mk_case ''add'' [10] :: (unit, unit) TestCase)
      \<lparr>params := ''other'', data_num := 2\<rparr>) \<and>
   gen_usecase_params ((mk_case ''add'' [10] :: (unit, unit) TestCase)
      \<lparr>params := ''other'', data_num := 2\<rparr>) = ''data, other'' \<and>
   gen_usecase ((mk_case ''add'' [10] :: (unit, unit) TestCase)
      \<lparr>params := ''other'', data_num := 2\<rparr>) '''' =
     Inr (Callable \<lparr>p_params = [''data'', ''other''],
       p_body = Call (Attr (Name ''data'') ''add'') [Name ''other'']\<rparr>)"
proof -
  let ?d = "(mk_case ''add'' [10] :: (unit, unit) TestCase)\<lparr>params := ''other'', data_num := 2\<rparr>"
  have pre: "call_expr ?d = None \<and> usecase_params ?d = None \<and> 1 \<le> data_num ?d"
    by (simp add: mk_case_def)
  have ex: "join_py '', '' (''data'' # extra_tokens ?d) = ''data, other''"
    by (simp add: extra_tokens_def partition_width_def param_tokens_def mk_case_def)
  have ce: "gen_call_expr ?d '''' = ''data.add(other)''"
    by (simp add: gen_call_expr_def mk_case_def)
  have cf: "create_func (Some ''data, other'') ''data.add(other)'' =
     Inr \<lparr>p_params = [''data'', ''other''],
       p_body = Call (Attr (Name ''data'') ''add'') [Name ''other'']\<rparr>"
    by (simp add: tokenize_defs parse_defs compile_defs)
  note th = gen_usecase_signature [where d = "?d" and prefix = "''''"]
  from th [THEN conjunct2, THEN conjunct2, THEN conjunct1] pre
  have sig: "gen_usecase_params ?d = ''data, other''"
    unfolding ex by blast
  from th [THEN conjunct2, THEN conjunct1] pre
  have "gen_usecase ?d '''' =
        map_sum id Callable (create_func (Some (gen_usecase_params ?d)) (gen_call_expr ?d ''''))"
    by blast
  then have "gen_usecase ?d '''' = Inr (Callable \<lparr>p_params = [''data'', ''other''],
       p_body = Call (Attr (Name ''data'') ''add'') [Name ''other'']\<rparr>)"
    by (simp only: sig ce cf map_sum.simps)
  with pre sig show ?thesis by blast
qed

text \<open>
  The claim as stated fails: for \<open>TestCase(name='sum', size=[10], call_expr='data.sum()')\<close>
  the derived signature would be \<open>data\<close>, from which the expression synthesizes, but
  \<open>gen_usecase\<close> synthesizes with \<open>None\<close> and raises \<open>SyntaxError\<close>.
\<close>

theorem gen_usecase_signature_counterexample:
  "gen_usecase_params ((mk_case ''sum'' [10] :: (unit, unit) TestCase)
      \<lparr>call_expr := Some (CEStr ''data.sum()'')\<rparr>) = ''data'' \<and>
   create_func (Some ''data'') ''data.sum()'' =
     Inr \<lparr>p_params = [''data''], p_body = Call (Attr (Name ''data'') ''sum'') []\<rparr> \<and>
   gen_usecase ((mk_case ''sum'' [10] :: (unit, unit) TestCase)
      \<lparr>call_expr := Some (CEStr ''data.sum()'')\<rparr>) '''' = Inl SyntaxError"
  by (simp add: gen_usecase_with_def gen_usecase_params_def slice_to_def mk_case_def
      tokenize_defs parse_defs compile_defs)

subsection \<open>Registration under one identifier\<close>

lemma register_cases_fst:
  "fst (register_cases synth cs class_add typ prefix) n =
     (case filter (\<lambda>c. test_name_of typ prefix c = n)
             (takeWhile (\<lambda>c. \<not> isl (gen_test_with synth c prefix)) cs) of
        [] \<Rightarrow> class_add n
      | c # cs' \<Rightarrow> (case gen_test_with synth (last (c # cs')) prefix of
                      Inl err \<Rightarrow> None
                    | Inr m \<Rightarrow> Some m))"
proof (induction cs arbitrary: class_add)
  case Nil
  then show ?case by simp
next
  case (Cons c cs)
  show ?case
  proof (cases "gen_test_with synth c prefix")
    case (Inl err)
    then show ?thesis by simp
  next
    case (Inr m)
    let ?cls = "class_add(test_name_of typ prefix c \<mapsto> m)"
    let ?kept = "filter (\<lambda>c. test_name_of typ prefix c = n)
        (takeWhile (\<lambda>c. \<not> isl (gen_test_with synth c prefix)) cs)"
    from Inr have step: "fst (register_cases synth (c # cs) class_add typ prefix) n =
        fst (register_cases synth cs ?cls typ prefix) n"
      by simp
    from Inr have tw: "takeWhile (\<lambda>c. \<not> isl (gen_test_with synth c prefix)) (c # cs) =
        c # takeWhile (\<lambda>c. \<not> isl (gen_test_with synth c prefix)) cs"
      by simp
    note IH = Cons [of ?cls]
    show ?thesis
    proof (cases "test_name_of typ prefix c = n")
      case True
      then show ?thesis
        unfolding step IH tw using Inr by (cases ?kept) simp_all
    next
      case False
      then show ?thesis
        unfolding step IH tw by (cases ?kept) simp_all
    qed
  qed
qed

lemma register_cases_snd:
  "snd (register_cases synth cs class_add typ prefix) =
     (case dropWhile (\<lambda>c. \<not> isl (gen_test_with synth c prefix)) cs of
        [] \<Rightarrow> None
      | c # rest \<Rightarrow> (case gen_test_with synth c prefix of
                       Inl err \<Rightarrow> Some err
                     | Inr m \<Rightarrow> None))"
proof (induction cs arbitrary: class_add)
  case Nil
  then show ?case by simp
next
  case (Cons c cs)
  then show ?case
    by (cases "gen_test_with synth c prefix") simp_all
qed

lemma takeWhile_list_all: "list_all P xs \<Longrightarrow> takeWhile P xs = xs"
  by (simp add: list_all_iff)

lemma dropWhile_list_all: "list_all P xs \<Longrightarrow> dropWhile P xs = []"
  by (simp add: list_all_iff)

text \<open>
  C3, as the code has it, for every synthesizer of functions \<open>synth\<close> in the place of
  \<open>create_func\<close>. \<open>generate_test_cases\<close> does not look for collisions of identifiers.
  It registers the expanded descriptors in order, up to the first one whose synthesis
  raises; that exception is the only one that leaves it, and none does when every
  synthesis returns. An identifier is then bound to the method of the last registered
  descriptor that synthesizes it: an earlier method under the same identifier is replaced
  without an error. An identifier that no registered descriptor synthesizes keeps what the
  class had.
\<close>

theorem generate_test_cases_overwrites:
  "fst (generate_test_cases_with synth cases class_add typ prefix) n =
     (case filter (\<lambda>c. test_name_of typ prefix c = n)
             (takeWhile (\<lambda>c. \<not> isl (gen_test_with synth c prefix)) (skipna_cases cases)) of
        [] \<Rightarrow> class_add n
      | c # cs \<Rightarrow> (case gen_test_with synth (last (c # cs)) prefix of
                     Inl err \<Rightarrow> None
                   | Inr m \<Rightarrow> Some m)) \<and>
   snd (generate_test_cases_with synth cases class_add typ prefix) =
     (case dropWhile (\<lambda>c. \<not> isl (gen_test_with synth c prefix)) (skipna_cases cases) of
        [] \<Rightarrow> None
      | c # rest \<Rightarrow> (case gen_test_with synth c prefix of
                       Inl err \<Rightarrow> Some err
                     | Inr m \<Rightarrow> None)) \<and>
   (list_all (\<lambda>c. \<not> isl (gen_test_with synth c prefix)) (skipna_cases cases) \<longrightarrow>
      snd (generate_test_cases_with synth cases class_add typ prefix) = None \<and>
      fst (generate_test_cases_with synth cases class_add typ prefix) n =
        (case filter (\<lambda>c. test_name_of typ prefix c = n) (skipna_cases cases) of
           [] \<Rightarrow> class_add n
         | c # cs \<Rightarrow> (case gen_test_with synth (last (c # cs)) prefix of
                        Inl err \<Rightarrow> None
                      | Inr m \<Rightarrow> Some m)))"
proof (intro conjI impI)
  show f: "fst (generate_test_cases_with synth cases class_add typ prefix) n =
     (case filter (\<lambda>c. test_name_of typ prefix c = n)
             (takeWhile (\<lambda>c. \<not> isl (gen_test_with synth c prefix)) (skipna_cases cases)) of
        [] \<Rightarrow> class_add n
      | c # cs \<Rightarrow> (case gen_test_with synth (last (c # cs)) prefix of
                     Inl err \<Rightarrow> None
                   | Inr m \<Rightarrow> Some m))"
    unfolding generate_test_cases_with_def by (rule register_cases_fst)
  show s: "snd (generate_test_cases_with synth cases class_add typ prefix) =
     (case dropWhile (\<lambda>c. \<not> isl (gen_test_with synth c prefix)) (skipna_cases cases) of
        [] \<Rightarrow> None
      | c # rest \<Rightarrow> (case gen_test_with synth c prefix of
                       Inl err \<Rightarrow> Some err
                     | Inr m \<Rightarrow> None))"
    unfolding generate_test_cases_with_def by (rule register_cases_snd)
  assume a: "list_all (\<lambda>c. \<not> isl (gen_test_with synth c prefix)) (skipna_cases cases)"
  from s show "snd (generate_test_cases_with synth cases class_add typ prefix) = None"
    by (simp only: dropWhile_list_all [OF a] list.case)
  from f show "fst (generate_test_cases_with synth cases class_add typ prefix) n =
        (case filter (\<lambda>c. test_name_of typ prefix c = n) (skipna_cases cases) of
           [] \<Rightarrow> class_add n
         | c # cs \<Rightarrow> (case gen_test_with synth (last (c # cs)) prefix of
                        Inl err \<Rightarrow> None
                      | Inr m \<Rightarrow> Some m))"
    by (simp only: takeWhile_list_all [OF a])
qed

lemma test_name_sum: "test_name_of ''series'' '''' (mk_case ''sum'' sz :: (unit, unit) TestCase)
    = ''test_series_sum''"
  by (simp add: test_name_of_def to_varname_without_excess_underscores_def to_varname_def
      gen_params_wo_data_def slice_from_def mk_case_def tokenize_defs)

lemma gen_test_sum:
  "gen_test (mk_case ''sum'' sz :: (unit, unit) TestCase) '''' =
     Inr (Method \<lparr>h_usecase = Callable
        \<lparr>p_params = [''data''], p_body = Call (Attr (Name ''data'') ''sum'') []\<rparr>,
        h_name = ''sum'', h_total_data_length = sz, h_data_num = 1,
        h_data_gens = None, h_input_data = None\<rparr>)"
  by (simp add: gen_test_with_def gen_usecase_with_def gen_usecase_params_def gen_call_expr_def
      slice_to_def mk_case_def tokenize_defs parse_defs compile_defs)

lemma generate_sum_twice:
  "generate_test_cases [mk_case ''sum'' [10] :: (unit, unit) TestCase, mk_case ''sum'' [20]]
       Map.empty ''series'' '''' =
     ([''test_series_sum'' \<mapsto> Method \<lparr>h_usecase = Callable
          \<lparr>p_params = [''data''], p_body = Call (Attr (Name ''data'') ''sum'') []\<rparr>,
          h_name = ''sum'', h_total_data_length = [20], h_data_num = 1,
          h_data_gens = None, h_input_data = None\<rparr>], None)"
proof -
  have "skipna_cases [mk_case ''sum'' [10] :: (unit, unit) TestCase, mk_case ''sum'' [20]]
      = [mk_case ''sum'' [10], mk_case ''sum'' [20]]"
    by (simp add: mk_case_def)
  then show ?thesis
    by (simp add: generate_test_cases_with_def gen_test_sum test_name_sum)
qed

lemma skipna_sum:
  "skipna_cases [(mk_case ''sum'' [10] :: (unit, unit) TestCase)\<lparr>check_skipna := True\<rparr>] =
     [(mk_case ''sum'' [10])\<lparr>check_skipna := True, params := ''skipna=True''\<rparr>,
      (mk_case ''sum'' [10])\<lparr>check_skipna := True, params := ''skipna=False''\<rparr>]"
  by (simp add: skipna_params_def str_bool_def mk_case_def)

lemma test_name_skipna:
  "test_name_of ''series'' ''''
     ((mk_case ''sum'' [10] :: (unit, unit) TestCase)\<lparr>check_skipna := True, params := ''skipna=True''\<rparr>)
     = ''test_series_sum_skipna_True''"
  "test_name_of ''series'' ''''
     ((mk_case ''sum'' [10] :: (unit, unit) TestCase)\<lparr>check_skipna := True, params := ''skipna=False''\<rparr>)
     = ''test_series_sum_skipna_False''"
  by (simp_all add: test_name_of_def to_varname_without_excess_underscores_def to_varname_def
      gen_params_wo_data_def slice_from_def mk_case_def tokenize_defs)

lemma gen_test_with_skipna:
  "gen_test_with (\<lambda>ps ce. Inr (ps, ce) :: unit + string option \<times> string)
     ((mk_case ''sum'' [10] :: (unit, unit) TestCase)\<lparr>check_skipna := True, params := ''skipna=True''\<rparr>)
     '''' =
   Inr (Method \<lparr>h_usecase = Callable (Some ''data'', ''data.sum(skipna=True)''),
     h_name = ''sum(skipna=True)'', h_total_data_length = [10], h_data_num = 1,
     h_data_gens = None, h_input_data = None\<rparr>)"
  "gen_test_with (\<lambda>ps ce. Inr (ps, ce) :: unit + string option \<times> string)
     ((mk_case ''sum'' [10] :: (unit, unit) TestCase)\<lparr>check_skipna := True, params := ''skipna=False''\<rparr>)
     '''' =
   Inr (Method \<lparr>h_usecase = Callable (Some ''data'', ''data.sum(skipna=False)''),
     h_name = ''sum(skipna=False)'', h_total_data_length = [10], h_data_num = 1,
     h_data_gens = None, h_input_data = None\<rparr>)"
  by (simp_all add: gen_test_with_def gen_usecase_with_def gen_usecase_params_def
      gen_call_expr_def slice_to_def mk_case_def)

theorem generate_test_cases_overwrites_witness:
  "fst (generate_test_cases [mk_case ''sum'' [10] :: (unit, unit) TestCase, mk_case ''sum'' [20]]
       Map.empty ''series'' '''') ''test_series_sum'' =
     Some (Method \<lparr>h_usecase = Callable
          \<lparr>p_params = [''data''], p_body = Call (Attr (Name ''data'') ''sum'') []\<rparr>,
          h_name = ''sum'', h_total_data_length = [20], h_data_num = 1,
          h_data_gens = None, h_input_data = None\<rparr>) \<and>
   snd (generate_test_cases [mk_case ''sum'' [10] :: (unit, unit) TestCase, mk_case ''sum'' [20]]
       Map.empty ''series'' '''') = None \<and>
   fst (generate_test_cases_with (\<lambda>ps ce. Inr (ps, ce) :: unit + string option \<times> string)
       [(mk_case ''sum'' [10] :: (unit, unit) TestCase)\<lparr>check_skipna := True\<rparr>]
       Map.empty ''series'' '''') ''test_series_sum_skipna_True'' =
     Some (Method \<lparr>h_usecase = Callable (Some ''data'', ''data.sum(skipna=True)''),
       h_name = ''sum(skipna=True)'', h_total_data_length = [10], h_data_num = 1,
       h_data_gens = None, h_input_data = None\<rparr>) \<and>
   fst (generate_test_cases_with (\<lambda>ps ce. Inr (ps, ce) :: unit + string option \<times> string)
       [(mk_case ''sum'' [10] :: (unit, unit) TestCase)\<lparr>check_skipna := True\<rparr>]
       Map.empty ''series'' '''') ''test_series_sum_skipna_False'' =
     Some (Method \<lparr>h_usecase = Callable (Some ''data'', ''data.sum(skipna=False)''),
       h_name = ''sum(skipna=False)'', h_total_data_length = [10], h_data_num = 1,
       h_data_gens = None, h_input_data = None\<rparr>) \<and>
   snd (generate_test_cases_with (\<lambda>ps ce. Inr (ps, ce) :: unit + string option \<times> string)
       [(mk_case ''sum'' [10] :: (unit, unit) TestCase)\<lparr>check_skipna := True\<rparr>]
       Map.empty ''series'' '''') = None"
proof -
  let ?two = "[mk_case ''sum'' [10] :: (unit, unit) TestCase, mk_case ''sum'' [20]]"
  let ?tbl = "[(mk_case ''sum'' [10] :: (unit, unit) TestCase)\<lparr>check_skipna := True\<rparr>]"
  let ?synth = "\<lambda>ps ce. Inr (ps, ce) :: unit + string option \<times> string"
  have sk: "skipna_cases ?two = [mk_case ''sum'' [10], mk_case ''sum'' [20]]"
    by (simp add: mk_case_def)
  have ok: "list_all (\<lambda>c. \<not> isl (gen_test c '''')) (skipna_cases ?two)"
    unfolding sk by (simp add: gen_test_sum)
  from generate_test_cases_overwrites [of create_func ?two Map.empty "''series''" "''''"
      "''test_series_sum''", THEN conjunct2, THEN conjunct2] ok
  have r1: "snd (generate_test_cases ?two Map.empty ''series'' '''') = None \<and>
      fst (generate_test_cases ?two Map.empty ''series'' '''') ''test_series_sum'' =
        Some (Method \<lparr>h_usecase = Callable
          \<lparr>p_params = [''data''], p_body = Call (Attr (Name ''data'') ''sum'') []\<rparr>,
          h_name = ''sum'', h_total_data_length = [20], h_data_num = 1,
          h_data_gens = None, h_input_data = None\<rparr>)"
    unfolding sk by (simp add: test_name_sum gen_test_sum)
  have ok': "list_all (\<lambda>c. \<not> isl (gen_test_with ?synth c '''')) (skipna_cases ?tbl)"
    unfolding skipna_sum by (simp add: gen_test_with_skipna)
  from generate_test_cases_overwrites [of ?synth ?tbl Map.empty "''series''" "''''"
      "''test_series_sum_skipna_True''", THEN conjunct2, THEN conjunct2] ok'
  have r2: "snd (generate_test_cases_with ?synth ?tbl Map.empty ''series'' '''') = None \<and>
      fst (generate_test_cases_with ?synth ?tbl Map.empty ''series'' '''')
          ''test_series_sum_skipna_True'' =
        Some (Method \<lparr>h_usecase = Callable (Some ''data'', ''data.sum(skipna=True)''),
          h_name = ''sum(skipna=True)'', h_total_data_length = [10], h_data_num = 1,
          h_data_gens = None, h_input_data = None\<rparr>)"
    unfolding skipna_sum by (simp add: test_name_skipna gen_test_with_skipna)
  from generate_test_cases_overwrites [of ?synth ?tbl Map.empty "''series''" "''''"
      "''test_series_sum_skipna_False''", THEN conjunct2, THEN conjunct2] ok'
  have r3: "fst (generate_test_cases_with ?synth ?tbl Map.empty ''series'' '''')
          ''test_series_sum_skipna_False'' =
        Some (Method \<lparr>h_usecase = Callable (Some ''data'', ''data.sum(skipna=False)''),
          h_name = ''sum(skipna=False)'', h_total_data_length = [10], h_data_num = 1,
          h_data_gens = None, h_input_data = None\<rparr>)"
    unfolding skipna_sum by (simp add: test_name_skipna gen_test_with_skipna)
  from r1 r2 r3 show ?thesis by blast
qed

text \<open>
  The claim as stated fails: the table of \<open>TestCase(name='sum', size=[10])\<close> and
  \<open>TestCase(name='sum', size=[20])\<close> synthesizes the identifier \<open>test_series_sum\<close>
  twice. No exception is raised, and the class is left with the second method only; the
  first, of size 10, is gone.
\<close>

theorem generate_test_cases_collision_counterexample:
  "test_name_of ''series'' '''' (mk_case ''sum'' [10] :: (unit, unit) TestCase) =
     test_name_of ''series'' '''' (mk_case ''sum'' [20] :: (unit, unit) TestCase) \<and>
   gen_test (mk_case ''sum'' [10] :: (unit, unit) TestCase) '''' =
     Inr (Method \<lparr>h_usecase = Callable
        \<lparr>p_params = [''data''], p_body = Call (Attr (Name ''data'') ''sum'') []\<rparr>,
        h_name = ''sum'', h_total_data_length = [10], h_data_num = 1,
        h_data_gens = None, h_input_data = None\<rparr>) \<and>
   generate_test_cases [mk_case ''sum'' [10] :: (unit, unit) TestCase, mk_case ''sum'' [20]]
       Map.empty ''series'' '''' =
     ([''test_series_sum'' \<mapsto> Method \<lparr>h_usecase = Callable
          \<lparr>p_params = [''data''], p_body = Call (Attr (Name ''data'') ''sum'') []\<rparr>,
          h_name = ''sum'', h_total_data_length = [20], h_data_num = 1,
          h_data_gens = None, h_input_data = None\<rparr>], None)"
  by (simp add: test_name_sum gen_test_sum generate_sum_twice)

end
